theory Spec2Isabelle
  imports Main "HOL-Library.Word" "HOL-Library.Signed_Division"
begin

section \<open>The Si7006 hwmon driver (si7006.c, si7006.h)\<close>

text \<open>
  The driver is built on the board it runs on (README, install.sh: the Raspberry Pi kernel
  headers; the device tree overlay binds the chip to the I2C bus of a bcm2835). The C types
  are those of 32-bit ARM Linux: \<open>int\<close>, \<open>long\<close> and \<open>unsigned long\<close> have 32 bits,
  \<open>long long\<close> has 64 bits, \<open>u32\<close> has 32 bits. Whether plain \<open>char\<close> is signed is kept as
  a field of the build environment below, since \<open>buf\<close> is declared \<open>char buf[6]\<close>.
\<close>

type_synonym u8 = "8 word"
type_synonym u32 = "32 word"
type_synonym c_int = "32 word"
type_synonym long = "32 word"
type_synonym ulong = "32 word"
type_synonym longlong = "64 word"

subsection \<open>What the kernel headers and the compiler supply\<close>

text \<open>
  None of these is declared under the driver's own files: \<open>HZ\<close> (ticks of \<open>jiffies\<close> per
  second), the signedness of plain \<open>char\<close>, and the enumerators of
  \<open>enum hwmon_temp_attributes\<close> and \<open>enum hwmon_humidity_attributes\<close> (linux/hwmon.h),
  which \<open>si7006_read\<close> receives as a \<open>u32\<close>. They are parameters of the model.
\<close>

record kernel =
  HZ :: ulong
  char_signed :: bool
  hwmon_temp_input :: u32
  hwmon_temp_max :: u32
  hwmon_temp_min :: u32
  hwmon_humidity_input :: u32
  hwmon_humidity_max :: u32
  hwmon_humidity_min :: u32

text \<open>The case labels of one \<open>switch\<close> are pairwise different (C rejects a duplicate).\<close>

definition case_labels_distinct :: "kernel \<Rightarrow> bool" where
  "case_labels_distinct k =
     (distinct [hwmon_temp_input k, hwmon_temp_max k, hwmon_temp_min k] \<and>
      distinct [hwmon_humidity_input k, hwmon_humidity_max k, hwmon_humidity_min k])"

text \<open>\<open>enum hwmon_sensor_types\<close> of linux/hwmon.h.\<close>

datatype hwmon_sensor_types =
  hwmon_chip | hwmon_temp | hwmon_in | hwmon_curr | hwmon_power | hwmon_energy
  | hwmon_humidity | hwmon_fan | hwmon_pwm | hwmon_intrusion | hwmon_max

datatype errno = ENOMEM | ENXIO | EOPNOTSUPP | PTR_ERR int

text \<open>\<open>time_after(a, b)\<close> of linux/jiffies.h is \<open>((long)((b) - (a)) < 0)\<close>.\<close>

definition time_after :: "ulong \<Rightarrow> ulong \<Rightarrow> bool" where
  "time_after a b = ((b - a) <s 0)"

subsection \<open>The I2C bus\<close>

text \<open>
  \<open>i2c_master_send\<close> and \<open>i2c_master_recv\<close> belong to the kernel. Each returns a negative
  errno or the number of bytes transferred. The client records every operation the driver
  issues (\<open>trace\<close>); what the bus answers to the n-th operation is given by \<open>adapter\<close>:
  the return value and, for a receive, the bytes put into the buffer.
\<close>

datatype i2c_op = I2C_send "u8 list" | I2C_recv nat

record i2c_client =
  adapter :: "nat \<Rightarrow> int \<times> (nat \<Rightarrow> u8)"
  trace :: "i2c_op list"

definition i2c_master_send :: "i2c_client \<Rightarrow> u8 list \<Rightarrow> int \<times> i2c_client" where
  "i2c_master_send client buf =
     (fst (adapter client (length (trace client))),
      client\<lparr>trace := trace client @ [I2C_send buf]\<rparr>)"

definition i2c_master_recv :: "i2c_client \<Rightarrow> nat \<Rightarrow> int \<times> (nat \<Rightarrow> u8) \<times> i2c_client" where
  "i2c_master_recv client count =
     (fst (adapter client (length (trace client))),
      snd (adapter client (length (trace client))),
      client\<lparr>trace := trace client @ [I2C_recv count]\<rparr>)"

text \<open>Every send opens one transaction; their number is the number of sends on the trace.\<close>

fun is_send :: "i2c_op \<Rightarrow> bool" where
  "is_send (I2C_send _) = True"
| "is_send (I2C_recv _) = False"

definition transactions :: "i2c_client \<Rightarrow> nat" where
  "transactions client = length (filter is_send (trace client))"

subsection \<open>si7006.h\<close>

definition ID_SI7006 :: c_int where "ID_SI7006 = 0x06"
definition SI7006_NUM_CH_TEMP :: c_int where "SI7006_NUM_CH_TEMP = 1"
definition SI7006_MEAS_REL_HUMIDITY_MASTER_MODE :: u8 where
  "SI7006_MEAS_REL_HUMIDITY_MASTER_MODE = 0xE5"
definition SI7006_MEAS_TEMP_MASTER_MODE :: u8 where
  "SI7006_MEAS_TEMP_MASTER_MODE = 0xE3"

text \<open>
  \<open>struct si7006_private\<close>. The \<open>client\<close> pointer is set once by the probe; the object it
  points to is the \<open>client\<close> field of the device below. \<open>update_lock\<close> is taken on entry and
  released on exit of the two functions that use it, which is invisible to sequential calls.
\<close>

record si7006_private =
  temperature_valid :: bool
  max_temperature :: long
  temperature :: long
  min_temperature :: long
  temperature_updated :: ulong
  humidity_valid :: bool
  max_humidity :: long
  humidity :: long
  min_humidity :: long
  humidity_updated :: ulong

record device =
  drvdata :: si7006_private
  client :: i2c_client

subsection \<open>Reading the sensor\<close>

text \<open>Integer promotion of a plain \<open>char\<close>.\<close>

definition char_to_int :: "kernel \<Rightarrow> u8 \<Rightarrow> c_int" where
  "char_to_int k c = (if char_signed k then scast c else ucast c)"

text \<open>si7006.c, lines 62 and 98: \<open>code = buf[1] + buf[0]*256\<close>.\<close>

definition si7006_code :: "kernel \<Rightarrow> u8 \<Rightarrow> u8 \<Rightarrow> c_int" where
  "si7006_code k b0 b1 = char_to_int k b1 + char_to_int k b0 * 256"

text \<open>Division of \<open>long long\<close> truncates towards zero.\<close>

definition div_longlong :: "longlong \<Rightarrow> longlong \<Rightarrow> longlong" where
  "div_longlong a b = word_of_int (sint a sdiv sint b)"

text \<open>
  Lines 63-64: \<open>temp = ((long long)(code)*175720)/65536-46850; *val = (long)temp\<close>, and
  lines 100-101 with 125000 and 6000.
\<close>

definition si7006_temperature_of_code :: "c_int \<Rightarrow> long" where
  "si7006_temperature_of_code code =
     ucast (div_longlong (scast code * 175720) 65536 - 46850)"

definition si7006_humidity_of_code :: "c_int \<Rightarrow> long" where
  "si7006_humidity_of_code code =
     ucast (div_longlong (scast code * 125000) 65536 - 6000)"

text \<open>The result is the negative return value of the bus, or the value stored in \<open>*val\<close>.\<close>

definition si7006_get_master_temperature ::
  "kernel \<Rightarrow> i2c_client \<Rightarrow> (int + long) \<times> i2c_client" where
  "si7006_get_master_temperature k cl =
     (case i2c_master_send cl [SI7006_MEAS_TEMP_MASTER_MODE] of
        (error, cl1) \<Rightarrow>
          if error < 0 then (Inl error, cl1)
          else (case i2c_master_recv cl1 2 of
                  (error, buf, cl2) \<Rightarrow>
                    if error < 0 then (Inl error, cl2)
                    else (Inr (si7006_temperature_of_code (si7006_code k (buf 0) (buf 1))),
                          cl2)))"

definition si7006_get_master_humidity ::
  "kernel \<Rightarrow> i2c_client \<Rightarrow> (int + long) \<times> i2c_client" where
  "si7006_get_master_humidity k cl =
     (case i2c_master_send cl [SI7006_MEAS_REL_HUMIDITY_MASTER_MODE] of
        (error, cl1) \<Rightarrow>
          if error < 0 then (Inl error, cl1)
          else (case i2c_master_recv cl1 2 of
                  (error, buf, cl2) \<Rightarrow>
                    if error < 0 then (Inl error, cl2)
                    else (Inr (si7006_humidity_of_code (si7006_code k (buf 0) (buf 1))),
                          cl2)))"

subsection \<open>The cached readings\<close>

text \<open>
  \<open>jiffies\<close> is read twice: in the test (\<open>j\<close>) and, after the bus transaction, when the
  time of the sample is stored (\<open>j'\<close>). The local \<open>temperature\<close> starts at 0 and is what the
  function returns after \<open>goto error\<close>.
\<close>

definition si7006_get_temperature ::
  "kernel \<Rightarrow> ulong \<Rightarrow> ulong \<Rightarrow> device \<Rightarrow> long \<times> device" where
  "si7006_get_temperature k j j' dev =
     (let data = drvdata dev in
      if time_after j (temperature_updated data + HZ k) \<or> \<not> temperature_valid data then
        (case si7006_get_master_temperature k (client dev) of
           (Inl ret, cl) \<Rightarrow> (0, dev\<lparr>client := cl\<rparr>)
         | (Inr t, cl) \<Rightarrow>
             (let data1 = data\<lparr>temperature := t, temperature_updated := j'\<rparr>;
                  data2 =
                    (if temperature_valid data1 then
                       (let d = (if max_temperature data1 <s t
                                 then data1\<lparr>max_temperature := t\<rparr> else data1)
                        in if t <s min_temperature d then d\<lparr>min_temperature := t\<rparr> else d)
                     else data1\<lparr>min_temperature := t, max_temperature := t,
                                temperature_valid := True\<rparr>)
              in (t, \<lparr>drvdata = data2, client = cl\<rparr>)))
      else (temperature data, dev))"

definition si7006_get_temperature_max :: "device \<Rightarrow> long" where
  "si7006_get_temperature_max dev = max_temperature (drvdata dev)"

definition si7006_get_temperature_min :: "device \<Rightarrow> long" where
  "si7006_get_temperature_min dev = min_temperature (drvdata dev)"

definition si7006_get_humidity ::
  "kernel \<Rightarrow> ulong \<Rightarrow> ulong \<Rightarrow> device \<Rightarrow> long \<times> device" where
  "si7006_get_humidity k j j' dev =
     (let data = drvdata dev in
      if time_after j (humidity_updated data + HZ k) \<or> \<not> humidity_valid data then
        (case si7006_get_master_humidity k (client dev) of
           (Inl ret, cl) \<Rightarrow> (0, dev\<lparr>client := cl\<rparr>)
         | (Inr h, cl) \<Rightarrow>
             (let data1 = data\<lparr>humidity := h, humidity_updated := j'\<rparr>;
                  data2 =
                    (if humidity_valid data1 then
                       (let d = (if max_humidity data1 <s h
                                 then data1\<lparr>max_humidity := h\<rparr> else data1)
                        in if h <s min_humidity d then d\<lparr>min_humidity := h\<rparr> else d)
                     else data1\<lparr>min_humidity := h, max_humidity := h,
                                humidity_valid := True\<rparr>)
              in (h, \<lparr>drvdata = data2, client = cl\<rparr>)))
      else (humidity data, dev))"

definition si7006_get_humidity_max :: "device \<Rightarrow> long" where
  "si7006_get_humidity_max dev = max_humidity (drvdata dev)"

definition si7006_get_humidity_min :: "device \<Rightarrow> long" where
  "si7006_get_humidity_min dev = min_humidity (drvdata dev)"

subsection \<open>The hwmon read operation\<close>

text \<open>
  The result is \<open>Inl EOPNOTSUPP\<close> for the return value \<open>-EOPNOTSUPP\<close>, and \<open>Inr v\<close> for
  the return value 0 with \<open>*val = v\<close>.
\<close>

definition si7006_read_temperature ::
  "kernel \<Rightarrow> ulong \<Rightarrow> ulong \<Rightarrow> device \<Rightarrow> u32 \<Rightarrow> c_int \<Rightarrow> (errno + long) \<times> device" where
  "si7006_read_temperature k j j' dev attr channel =
     (if attr = hwmon_temp_input k then
        (if channel <s SI7006_NUM_CH_TEMP
         then (case si7006_get_temperature k j j' dev of (v, dev') \<Rightarrow> (Inr v, dev'))
         else (Inl EOPNOTSUPP, dev))
      else if attr = hwmon_temp_max k then
        (if channel <s SI7006_NUM_CH_TEMP
         then (Inr (si7006_get_temperature_max dev), dev)
         else (Inl EOPNOTSUPP, dev))
      else if attr = hwmon_temp_min k then
        (if channel <s SI7006_NUM_CH_TEMP
         then (Inr (si7006_get_temperature_min dev), dev)
         else (Inl EOPNOTSUPP, dev))
      else (Inl EOPNOTSUPP, dev))"

definition si7006_read_humidity ::
  "kernel \<Rightarrow> ulong \<Rightarrow> ulong \<Rightarrow> device \<Rightarrow> u32 \<Rightarrow> c_int \<Rightarrow> (errno + long) \<times> device" where
  "si7006_read_humidity k j j' dev attr channel =
     (if attr = hwmon_humidity_input k then
        (if channel <s SI7006_NUM_CH_TEMP
         then (case si7006_get_humidity k j j' dev of (v, dev') \<Rightarrow> (Inr v, dev'))
         else (Inl EOPNOTSUPP, dev))
      else if attr = hwmon_humidity_max k then
        (if channel <s SI7006_NUM_CH_TEMP
         then (Inr (si7006_get_humidity_max dev), dev)
         else (Inl EOPNOTSUPP, dev))
      else if attr = hwmon_humidity_min k then
        (if channel <s SI7006_NUM_CH_TEMP
         then (Inr (si7006_get_humidity_min dev), dev)
         else (Inl EOPNOTSUPP, dev))
      else (Inl EOPNOTSUPP, dev))"

fun si7006_read ::
  "kernel \<Rightarrow> ulong \<Rightarrow> ulong \<Rightarrow> device \<Rightarrow> hwmon_sensor_types \<Rightarrow> u32 \<Rightarrow> c_int
     \<Rightarrow> (errno + long) \<times> device" where
  "si7006_read k j j' dev hwmon_temp attr channel =
     si7006_read_temperature k j j' dev attr channel"
| "si7006_read k j j' dev hwmon_humidity attr channel =
     si7006_read_humidity k j j' dev attr channel"
| "si7006_read k j j' dev _ attr channel = (Inl EOPNOTSUPP, dev)"

subsection \<open>Probe\<close>

definition si7006_get_device_id :: "kernel \<Rightarrow> i2c_client \<Rightarrow> (int + c_int) \<times> i2c_client" where
  "si7006_get_device_id k cl =
     (case i2c_master_send cl [0xFC, 0xC9] of
        (error, cl1) \<Rightarrow>
          if error < 0 then (Inl error, cl1)
          else (case i2c_master_recv cl1 6 of
                  (error, buf, cl2) \<Rightarrow>
                    if error < 0 then (Inl error, cl2)
                    else (Inr (char_to_int k (buf 0)), cl2)))"

text \<open>\<open>devm_kzalloc\<close> returns zeroed memory.\<close>

definition kzalloc_si7006_private :: si7006_private where
  "kzalloc_si7006_private =
     \<lparr>temperature_valid = False, max_temperature = 0, temperature = 0, min_temperature = 0,
      temperature_updated = 0,
      humidity_valid = False, max_humidity = 0, humidity = 0, min_humidity = 0,
      humidity_updated = 0\<rparr>"

text \<open>
  \<open>alloc_ok\<close> tells whether \<open>devm_kzalloc\<close> succeeds, \<open>hwmon_err\<close> is the error of
  \<open>devm_hwmon_device_register_with_info\<close>, if any. The return value of
  \<open>si7006_get_device_id\<close> is ignored; \<open>chip_id\<close> starts at 0.
\<close>

definition si7006_i2c_probe ::
  "kernel \<Rightarrow> bool \<Rightarrow> int option \<Rightarrow> i2c_client \<Rightarrow> errno + device" where
  "si7006_i2c_probe k alloc_ok hwmon_err cl =
     (if \<not> alloc_ok then Inl ENOMEM
      else (case si7006_get_device_id k cl of
              (r, cl') \<Rightarrow>
                (let chip_id = (case r of Inl _ \<Rightarrow> 0 | Inr i \<Rightarrow> i) in
                 if chip_id \<noteq> ID_SI7006 then Inl ENXIO
                 else (case hwmon_err of
                         Some e \<Rightarrow> Inl (PTR_ERR e)
                       | None \<Rightarrow> Inr \<lparr>drvdata = kzalloc_si7006_private, client = cl'\<rparr>))))"

subsection \<open>Sequences of hwmon reads\<close>

text \<open>
  After the probe the hwmon core reaches the driver state only through \<open>si7006_read\<close>
  (\<open>si7006_read_string\<close> and \<open>si7006_is_visible\<close> do not touch it). A request carries the
  arguments of the call and the two values of \<open>jiffies\<close> that the call would see.
\<close>

datatype request = Request hwmon_sensor_types u32 c_int ulong ulong

fun serve :: "kernel \<Rightarrow> device \<Rightarrow> request \<Rightarrow> device" where
  "serve k dev (Request type attr channel j j') =
     snd (si7006_read k j j' dev type attr channel)"

definition serve_all :: "kernel \<Rightarrow> device \<Rightarrow> request list \<Rightarrow> device" where
  "serve_all k dev rs = foldl (serve k) dev rs"

subsection \<open>Concrete environments and states\<close>

text \<open>
  A build for the Raspberry Pi: 100 ticks per second, plain \<open>char\<close> unsigned, and the
  attribute numbers of a Linux 5 header.
\<close>

definition rpi_kernel :: kernel where
  "rpi_kernel =
     \<lparr>HZ = 100, char_signed = False,
      hwmon_temp_input = 1, hwmon_temp_max = 7, hwmon_temp_min = 5,
      hwmon_humidity_input = 1, hwmon_humidity_max = 5, hwmon_humidity_min = 3\<rparr>"


text \<open>A bus on which every operation succeeds and every receive delivers \<open>b0, b1\<close>.\<close>

definition bus_answering :: "u8 \<Rightarrow> u8 \<Rightarrow> i2c_client" where
  "bus_answering b0 b1 =
     \<lparr>adapter = (\<lambda>n. (2, \<lambda>i. if i = 0 then b0 else b1)), trace = []\<rparr>"

text \<open>A bus on which every operation fails with \<open>-EIO\<close>.\<close>

definition bus_failing :: i2c_client where
  "bus_failing = \<lparr>adapter = (\<lambda>n. (- 5, \<lambda>i. 0)), trace = []\<rparr>"

text \<open>A bus whose first operation fails with \<open>-EIO\<close> and which answers afterwards.\<close>

definition bus_failing_once :: "u8 \<Rightarrow> u8 \<Rightarrow> i2c_client" where
  "bus_failing_once b0 b1 =
     \<lparr>adapter = (\<lambda>n. if n = 0 then (- 5, \<lambda>i. 0) else (2, \<lambda>i. if i = 0 then b0 else b1)),
      trace = []\<rparr>"

text \<open>A state with one sample of each quantity, taken at tick 0.\<close>

definition sampled_private :: si7006_private where
  "sampled_private =
     \<lparr>temperature_valid = True, max_temperature = 26000, temperature = 25000,
      min_temperature = 24000, temperature_updated = 0,
      humidity_valid = True, max_humidity = 52000, humidity = 50000, min_humidity = 48000,
      humidity_updated = 0\<rparr>"

definition sampled_dev :: "i2c_client \<Rightarrow> device" where
  "sampled_dev cl = \<lparr>drvdata = sampled_private, client = cl\<rparr>"

text \<open>
  A bus with the chip on it: the first transaction (the probe's) is answered with the
  identifier 0x06, every later receive with the bytes 0x68 0xAD.
\<close>

definition bus_board :: i2c_client where
  "bus_board =
     \<lparr>adapter = (\<lambda>n. (2, \<lambda>i. if n < 2 then (if i = 0 then 0x06 else 0)
                                else (if i = 0 then 0x68 else 0xAD))),
      trace = []\<rparr>"

text \<open>The device the probe leaves on that bus, and a sequence of reads on it.\<close>

definition probed_board :: device where
  "probed_board =
     \<lparr>drvdata = kzalloc_si7006_private,
      client = bus_board\<lparr>trace := [I2C_send [0xFC, 0xC9], I2C_recv 6]\<rparr>\<rparr>"

definition board_requests :: "request list" where
  "board_requests =
     [Request hwmon_temp 1 0 1000 1001, Request hwmon_humidity 1 0 1002 1003,
      Request hwmon_temp 7 0 1004 1004, Request hwmon_fan 1 0 1005 1005]"

subsection \<open>The invariant of the extrema\<close>

definition extrema_ok :: "si7006_private \<Rightarrow> bool" where
  "extrema_ok d =
     ((temperature_valid d \<longrightarrow>
         min_temperature d \<le>s temperature d \<and> temperature d \<le>s max_temperature d) \<and>
      (humidity_valid d \<longrightarrow>
         min_humidity d \<le>s humidity d \<and> humidity d \<le>s max_humidity d))"

section \<open>Properties\<close>

subsection \<open>Word arithmetic of the conversions\<close>

lemma sint_longlong_of_int:
  "- (2 ^ 63) \<le> m \<Longrightarrow> m < 2 ^ 63 \<Longrightarrow> sint (word_of_int m :: longlong) = m"
  by (simp add: sint_sbintrunc' signed_take_bit_int_eq_self)

lemma sint_long_of_int:
  "- (2 ^ 31) \<le> m \<Longrightarrow> m < 2 ^ 31 \<Longrightarrow> sint (word_of_int m :: long) = m"
  by (simp add: sint_sbintrunc' signed_take_bit_int_eq_self)

lemma scast_int_to_longlong: "(scast (x :: c_int) :: longlong) = word_of_int (sint x)"
  by (rule scast_eq)

lemma ucast_longlong_to_long: "(ucast (word_of_int m :: longlong) :: long) = word_of_int m"
  by (rule bit_word_eqI) (simp add: bit_simps)

lemma sdiv_nonneg: "0 \<le> a \<Longrightarrow> 0 < b \<Longrightarrow> (a::int) sdiv b = a div b"
  by (cases "a = 0") (simp_all add: signed_divide_int_def)

text \<open>
  The shape shared by both conversions: for a code below \<open>2 ^ 16\<close> and constants below
  \<open>2 ^ 20\<close> no step leaves the range of its type.
\<close>

lemma linear_conversion:
  fixes a b n :: int
  assumes n: "0 \<le> n" "n < 65536" and a: "0 \<le> a" "a < 2 ^ 20" and b: "0 \<le> b" "b < 2 ^ 20"
  shows "sint (ucast (div_longlong (scast (word_of_int n :: c_int) * word_of_int a) 65536
                      - word_of_int b) :: long)
         = (n * a) div 65536 - b"
proof -
  have sn: "sint (word_of_int n :: c_int) = n"
    using n by (simp add: sint_sbintrunc' signed_take_bit_int_eq_self)
  have le: "n * a \<le> 65536 * 2 ^ 20"
    using n a by (intro mult_mono) auto
  then have pb: "n * a < 2 ^ 63" by simp
  have p0: "0 \<le> n * a" using n a by simp
  have prod: "scast (word_of_int n :: c_int) * (word_of_int a :: longlong) = word_of_int (n * a)"
    by (simp only: scast_int_to_longlong sn wi_hom_mult)
  have sp: "sint (word_of_int (n * a) :: longlong) = n * a"
    using p0 pb by (intro sint_longlong_of_int) auto
  have q: "div_longlong (word_of_int (n * a)) 65536 = word_of_int ((n * a) div 65536)"
  proof -
    have "sint (word_of_int (n * a) :: longlong) sdiv sint (65536 :: longlong)
          = (n * a) div 65536"
      using p0 by (simp only: sp) (simp add: sdiv_nonneg)
    then show ?thesis unfolding div_longlong_def by (rule arg_cong)
  qed
  have q0: "0 \<le> (n * a) div 65536" using p0 by simp
  have "(n * a) div 65536 \<le> (65536 * 2 ^ 20) div 65536"
    using le by (intro zdiv_mono1) auto
  then have qb: "(n * a) div 65536 \<le> 2 ^ 20" by simp
  have "ucast (div_longlong (scast (word_of_int n :: c_int) * word_of_int a) 65536
               - word_of_int b)
        = (word_of_int ((n * a) div 65536 - b) :: long)"
    by (simp only: prod q wi_hom_sub ucast_longlong_to_long)
  moreover have "sint (word_of_int ((n * a) div 65536 - b) :: long) = (n * a) div 65536 - b"
    using q0 qb b by (intro sint_long_of_int) auto
  ultimately show ?thesis by simp
qed

lemma ucast_code: "(ucast (c :: 16 word) :: c_int) = word_of_int (uint c)"
  by (rule ucast_eq)

lemma uint_code_bounds: "0 \<le> uint (c :: 16 word)" "uint (c :: 16 word) < 65536"
  using uint_lt2p [of c] by auto

subsection \<open>C2: the temperature conversion\<close>

text \<open>
  C2, as the code has it. For every 16-bit unsigned raw code the temperature stored in
  \<open>*val\<close> is \<open>(code * 175720) / 65536 - 46850\<close> in exact integer arithmetic, the division
  truncating (on these non-negative operands truncation and flooring agree); no
  intermediate overflows. Code 0x0000 gives -46850 and code 0xFFFF gives 128867.
\<close>

theorem temperature_conversion:
  "sint (si7006_temperature_of_code (ucast (c :: 16 word)))
     = (uint c * 175720) sdiv 65536 - 46850
   \<and> (uint c * 175720) sdiv 65536 = (uint c * 175720) div 65536
   \<and> sint (si7006_temperature_of_code 0x0000) = - 46850
   \<and> sint (si7006_temperature_of_code 0xFFFF) = 128867"
proof -
  have f: "sint (si7006_temperature_of_code (ucast c)) = (uint c * 175720) div 65536 - 46850"
    for c :: "16 word"
    using linear_conversion [OF uint_code_bounds [of c], of 175720 46850]
    by (simp only: si7006_temperature_of_code_def ucast_code) simp
  have d: "(uint c * 175720) sdiv 65536 = (uint c * 175720) div 65536"
    using uint_code_bounds [of c] by (intro sdiv_nonneg) auto
  have "sint (si7006_temperature_of_code (ucast (0 :: 16 word))) = - 46850"
    by (simp only: f) simp
  moreover have "sint (si7006_temperature_of_code (ucast (0xFFFF :: 16 word))) = 128867"
    by (simp only: f) simp
  ultimately show ?thesis using f [of c] d by simp
qed

text \<open>C2 as stated gives 129735 for code 0xFFFF; the code gives 128867.\<close>

theorem temperature_conversion_FFFF_counterexample:
  "sint (si7006_temperature_of_code 0xFFFF) \<noteq> 129735
   \<and> (65535 * 175720) div 65536 - 46850 \<noteq> (129735 :: int)"
  by (simp add: si7006_temperature_of_code_def div_longlong_def signed_divide_int_def)

subsection \<open>C3: the humidity conversion\<close>

text \<open>
  C3, as the code has it. For every 16-bit unsigned raw code the humidity stored in
  \<open>*val\<close> is \<open>(code * 125000) / 65536 - 6000\<close> in exact integer arithmetic, the division
  truncating. Code 0x0000 gives -6000 and code 0xFFFF gives 118998.
\<close>

theorem humidity_conversion:
  "sint (si7006_humidity_of_code (ucast (c :: 16 word)))
     = (uint c * 125000) sdiv 65536 - 6000
   \<and> (uint c * 125000) sdiv 65536 = (uint c * 125000) div 65536
   \<and> sint (si7006_humidity_of_code 0x0000) = - 6000
   \<and> sint (si7006_humidity_of_code 0xFFFF) = 118998"
proof -
  have f: "sint (si7006_humidity_of_code (ucast c)) = (uint c * 125000) div 65536 - 6000"
    for c :: "16 word"
    using linear_conversion [OF uint_code_bounds [of c], of 125000 6000]
    by (simp only: si7006_humidity_of_code_def ucast_code) simp
  have d: "(uint c * 125000) sdiv 65536 = (uint c * 125000) div 65536"
    using uint_code_bounds [of c] by (intro sdiv_nonneg) auto
  have "sint (si7006_humidity_of_code (ucast (0 :: 16 word))) = - 6000"
    by (simp only: f) simp
  moreover have "sint (si7006_humidity_of_code (ucast (0xFFFF :: 16 word))) = 118998"
    by (simp only: f) simp
  ultimately show ?thesis using f [of c] d by simp
qed

text \<open>C3 as stated gives 118968 for code 0xFFFF; the code gives 118998.\<close>

theorem humidity_conversion_FFFF_counterexample:
  "sint (si7006_humidity_of_code 0xFFFF) \<noteq> 118968
   \<and> (65535 * 125000) div 65536 - 6000 \<noteq> (118968 :: int)"
  by (simp add: si7006_humidity_of_code_def div_longlong_def signed_divide_int_def)

subsection \<open>C10: the raw code\<close>







text \<open>
  For comparison, a build with signed plain \<open>char\<close> extends the sign of each byte: the code
  of the bytes 0x68 0xAD (25000 milli-degrees) comes out 256 too low, and 0xFF 0xFF is
  negative.
\<close>

lemma si7006_code_signed_char:
  "char_signed k \<Longrightarrow>
     sint (si7006_code k 0x68 0xAD) = 26541 \<and> sint (si7006_code k 0xFF 0xFF) = - 257"
  by (simp add: si7006_code_def char_to_int_def)


subsection \<open>The paths of the cached readings\<close>

lemma get_master_temperature_client:
  "transactions (snd (si7006_get_master_temperature k cl)) = transactions cl + 1"
  by (simp add: si7006_get_master_temperature_def i2c_master_send_def i2c_master_recv_def
      transactions_def split: prod.splits)

lemma get_temperature_cached:
  "\<not> time_after j (temperature_updated (drvdata dev) + HZ k) \<Longrightarrow> temperature_valid (drvdata dev)
   \<Longrightarrow> si7006_get_temperature k j j' dev = (temperature (drvdata dev), dev)"
  by (simp add: si7006_get_temperature_def)

lemma get_temperature_error:
  "time_after j (temperature_updated (drvdata dev) + HZ k) \<or> \<not> temperature_valid (drvdata dev)
   \<Longrightarrow> fst (si7006_get_master_temperature k (client dev)) = Inl e
   \<Longrightarrow> si7006_get_temperature k j j' dev
       = (0, dev\<lparr>client := snd (si7006_get_master_temperature k (client dev))\<rparr>)"
  by (cases "si7006_get_master_temperature k (client dev)")
     (auto simp: si7006_get_temperature_def)

lemma get_temperature_sample:
  "time_after j (temperature_updated (drvdata dev) + HZ k) \<or> \<not> temperature_valid (drvdata dev)
   \<Longrightarrow> fst (si7006_get_master_temperature k (client dev)) = Inr t
   \<Longrightarrow> si7006_get_temperature k j j' dev
       = (t, \<lparr>drvdata = (drvdata dev)
                \<lparr>temperature := t, temperature_updated := j',
                 max_temperature := (if temperature_valid (drvdata dev)
                     then (if max_temperature (drvdata dev) <s t then t else max_temperature (drvdata dev))
                     else t),
                 min_temperature := (if temperature_valid (drvdata dev)
                     then (if t <s min_temperature (drvdata dev) then t else min_temperature (drvdata dev))
                     else t),
                 temperature_valid := True\<rparr>,
              client = snd (si7006_get_master_temperature k (client dev))\<rparr>)"
  by (cases "si7006_get_master_temperature k (client dev)")
     (auto simp: si7006_get_temperature_def Let_def)

lemma get_temperature_transactions:
  "transactions (client (snd (si7006_get_temperature k j j' dev)))
     = transactions (client dev)
       + (if time_after j (temperature_updated (drvdata dev) + HZ k) \<or> \<not> temperature_valid (drvdata dev)
          then 1 else 0)"
proof (cases "time_after j (temperature_updated (drvdata dev) + HZ k) \<or> \<not> temperature_valid (drvdata dev)")
  case False
  then show ?thesis by (simp add: get_temperature_cached)
next
  case True
  show ?thesis
  proof (cases "fst (si7006_get_master_temperature k (client dev))")
    case (Inl e)
    show ?thesis
      by (simp only: get_temperature_error [OF True Inl]) (simp add: True get_master_temperature_client)
  next
    case (Inr t)
    show ?thesis
      by (simp only: get_temperature_sample [OF True Inr]) (simp add: True get_master_temperature_client)
  qed
qed

lemma extrema_ok_get_temperature:
  assumes "extrema_ok (drvdata dev)"
  shows "extrema_ok (drvdata (snd (si7006_get_temperature k j j' dev)))"
proof (cases "time_after j (temperature_updated (drvdata dev) + HZ k) \<or> \<not> temperature_valid (drvdata dev)")
  case False
  then show ?thesis using assms by (simp add: get_temperature_cached)
next
  case True
  show ?thesis
  proof (cases "fst (si7006_get_master_temperature k (client dev))")
    case (Inl e)
    show ?thesis using assms
      by (simp only: get_temperature_error [OF True Inl]) simp
  next
    case (Inr t)
    show ?thesis using assms
      by (simp only: get_temperature_sample [OF True Inr])
         (auto simp: extrema_ok_def word_sle_eq word_sless_alt)
  qed
qed

lemma valid_get_temperature:
  "(temperature_valid (drvdata dev) \<longrightarrow> temperature_valid (drvdata (snd (si7006_get_temperature k j j' dev))))
   \<and> humidity_valid (drvdata (snd (si7006_get_temperature k j j' dev))) = humidity_valid (drvdata dev)"
proof (cases "time_after j (temperature_updated (drvdata dev) + HZ k) \<or> \<not> temperature_valid (drvdata dev)")
  case False
  then show ?thesis by (simp add: get_temperature_cached)
next
  case True
  show ?thesis
  proof (cases "fst (si7006_get_master_temperature k (client dev))")
    case (Inl e)
    show ?thesis
      by (simp only: get_temperature_error [OF True Inl]) simp
  next
    case (Inr t)
    show ?thesis
      by (simp only: get_temperature_sample [OF True Inr]) simp
  qed
qed

lemma get_master_humidity_client:
  "transactions (snd (si7006_get_master_humidity k cl)) = transactions cl + 1"
  by (simp add: si7006_get_master_humidity_def i2c_master_send_def i2c_master_recv_def
      transactions_def split: prod.splits)

lemma get_humidity_cached:
  "\<not> time_after j (humidity_updated (drvdata dev) + HZ k) \<Longrightarrow> humidity_valid (drvdata dev)
   \<Longrightarrow> si7006_get_humidity k j j' dev = (humidity (drvdata dev), dev)"
  by (simp add: si7006_get_humidity_def)

lemma get_humidity_error:
  "time_after j (humidity_updated (drvdata dev) + HZ k) \<or> \<not> humidity_valid (drvdata dev)
   \<Longrightarrow> fst (si7006_get_master_humidity k (client dev)) = Inl e
   \<Longrightarrow> si7006_get_humidity k j j' dev
       = (0, dev\<lparr>client := snd (si7006_get_master_humidity k (client dev))\<rparr>)"
  by (cases "si7006_get_master_humidity k (client dev)")
     (auto simp: si7006_get_humidity_def)

lemma get_humidity_sample:
  "time_after j (humidity_updated (drvdata dev) + HZ k) \<or> \<not> humidity_valid (drvdata dev)
   \<Longrightarrow> fst (si7006_get_master_humidity k (client dev)) = Inr t
   \<Longrightarrow> si7006_get_humidity k j j' dev
       = (t, \<lparr>drvdata = (drvdata dev)
                \<lparr>humidity := t, humidity_updated := j',
                 max_humidity := (if humidity_valid (drvdata dev)
                     then (if max_humidity (drvdata dev) <s t then t else max_humidity (drvdata dev))
                     else t),
                 min_humidity := (if humidity_valid (drvdata dev)
                     then (if t <s min_humidity (drvdata dev) then t else min_humidity (drvdata dev))
                     else t),
                 humidity_valid := True\<rparr>,
              client = snd (si7006_get_master_humidity k (client dev))\<rparr>)"
  by (cases "si7006_get_master_humidity k (client dev)")
     (auto simp: si7006_get_humidity_def Let_def)

lemma get_humidity_transactions:
  "transactions (client (snd (si7006_get_humidity k j j' dev)))
     = transactions (client dev)
       + (if time_after j (humidity_updated (drvdata dev) + HZ k) \<or> \<not> humidity_valid (drvdata dev)
          then 1 else 0)"
proof (cases "time_after j (humidity_updated (drvdata dev) + HZ k) \<or> \<not> humidity_valid (drvdata dev)")
  case False
  then show ?thesis by (simp add: get_humidity_cached)
next
  case True
  show ?thesis
  proof (cases "fst (si7006_get_master_humidity k (client dev))")
    case (Inl e)
    show ?thesis
      by (simp only: get_humidity_error [OF True Inl]) (simp add: True get_master_humidity_client)
  next
    case (Inr t)
    show ?thesis
      by (simp only: get_humidity_sample [OF True Inr]) (simp add: True get_master_humidity_client)
  qed
qed

lemma extrema_ok_get_humidity:
  assumes "extrema_ok (drvdata dev)"
  shows "extrema_ok (drvdata (snd (si7006_get_humidity k j j' dev)))"
proof (cases "time_after j (humidity_updated (drvdata dev) + HZ k) \<or> \<not> humidity_valid (drvdata dev)")
  case False
  then show ?thesis using assms by (simp add: get_humidity_cached)
next
  case True
  show ?thesis
  proof (cases "fst (si7006_get_master_humidity k (client dev))")
    case (Inl e)
    show ?thesis using assms
      by (simp only: get_humidity_error [OF True Inl]) simp
  next
    case (Inr t)
    show ?thesis using assms
      by (simp only: get_humidity_sample [OF True Inr])
         (auto simp: extrema_ok_def word_sle_eq word_sless_alt)
  qed
qed

lemma valid_get_humidity:
  "(humidity_valid (drvdata dev) \<longrightarrow> humidity_valid (drvdata (snd (si7006_get_humidity k j j' dev))))
   \<and> temperature_valid (drvdata (snd (si7006_get_humidity k j j' dev))) = temperature_valid (drvdata dev)"
proof (cases "time_after j (humidity_updated (drvdata dev) + HZ k) \<or> \<not> humidity_valid (drvdata dev)")
  case False
  then show ?thesis by (simp add: get_humidity_cached)
next
  case True
  show ?thesis
  proof (cases "fst (si7006_get_master_humidity k (client dev))")
    case (Inl e)
    show ?thesis
      by (simp only: get_humidity_error [OF True Inl]) simp
  next
    case (Inr t)
    show ?thesis
      by (simp only: get_humidity_sample [OF True Inr]) simp
  qed
qed

subsection \<open>Elapsed ticks\<close>

lemma sint_diff_uint:
  fixes a b :: ulong
  assumes "uint a - uint b < 2 ^ 31" "- (2 ^ 31) \<le> uint a - uint b"
  shows "sint (a - b) = uint a - uint b"
proof -
  have "a - b = word_of_int (uint a - uint b)"
    by (rule word_sub_wi)
  moreover have "sint (word_of_int (uint a - uint b) :: ulong) = uint a - uint b"
    using assms by (intro sint_long_of_int)
  ultimately show ?thesis by (simp only:)
qed

lemma time_after_elapsed:
  assumes h: "uint hz < 2 ^ 31" and d: "uint (j - u) \<le> 2 ^ 31"
  shows "time_after j (u + hz) \<longleftrightarrow> uint hz < uint (j - u)"
proof -
  have e: "u + hz - j = hz - (j - u)" by (simp add: algebra_simps)
  have "sint (hz - (j - u)) = uint hz - uint (j - u)"
    using h d uint_ge_0 [of hz] uint_ge_0 [of "j - u"] by (intro sint_diff_uint) linarith+
  then show ?thesis
    by (simp only: time_after_def word_sless_alt e) simp
qed

text \<open>Unfolding sets for the concrete environments.\<close>

lemmas bus_defs = i2c_master_send_def i2c_master_recv_def transactions_def
  bus_failing_def bus_answering_def bus_failing_once_def bus_board_def
lemmas example_defs = rpi_kernel_def sampled_dev_def sampled_private_def
lemmas master_defs = si7006_get_master_temperature_def si7006_get_master_humidity_def
  SI7006_MEAS_TEMP_MASTER_MODE_def SI7006_MEAS_REL_HUMIDITY_MASTER_MODE_def

subsection \<open>C1: a failed transaction on a valid, stale cache\<close>

text \<open>
  C1, as the code has it. For every state with a valid sample, if the cached value is stale
  and the bus transaction fails, the function returns 0 (the initial value of its local
  variable), not the cached value. The driver state is unchanged: value, minimum, maximum,
  validity and time of the last update are as before, and one transaction was attempted.
  This holds for the temperature and for the humidity.
\<close>

theorem transport_failure_returns_zero:
  "(temperature_valid (drvdata dev)
      \<and> time_after j (temperature_updated (drvdata dev) + HZ k)
      \<and> fst (si7006_get_master_temperature k (client dev)) = Inl e
    \<longrightarrow> fst (si7006_get_temperature k j j' dev) = 0
        \<and> drvdata (snd (si7006_get_temperature k j j' dev)) = drvdata dev
        \<and> transactions (client (snd (si7006_get_temperature k j j' dev)))
            = transactions (client dev) + 1)
   \<and> (humidity_valid (drvdata dev)
      \<and> time_after j (humidity_updated (drvdata dev) + HZ k)
      \<and> fst (si7006_get_master_humidity k (client dev)) = Inl e
    \<longrightarrow> fst (si7006_get_humidity k j j' dev) = 0
        \<and> drvdata (snd (si7006_get_humidity k j j' dev)) = drvdata dev
        \<and> transactions (client (snd (si7006_get_humidity k j j' dev)))
            = transactions (client dev) + 1)"
  by (simp add: get_temperature_error get_humidity_error
      get_master_temperature_client get_master_humidity_client)

theorem transport_failure_returns_zero_witness:
  "temperature_valid (drvdata (sampled_dev bus_failing))
   \<and> time_after 1000 (temperature_updated (drvdata (sampled_dev bus_failing)) + HZ rpi_kernel)
   \<and> fst (si7006_get_master_temperature rpi_kernel (client (sampled_dev bus_failing))) = Inl (- 5)
   \<and> humidity_valid (drvdata (sampled_dev bus_failing))
   \<and> time_after 1000 (humidity_updated (drvdata (sampled_dev bus_failing)) + HZ rpi_kernel)
   \<and> fst (si7006_get_master_humidity rpi_kernel (client (sampled_dev bus_failing))) = Inl (- 5)
   \<and> fst (si7006_get_temperature rpi_kernel 1000 1001 (sampled_dev bus_failing)) = 0
   \<and> drvdata (snd (si7006_get_temperature rpi_kernel 1000 1001 (sampled_dev bus_failing)))
        = sampled_private
   \<and> fst (si7006_get_humidity rpi_kernel 1000 1001 (sampled_dev bus_failing)) = 0
   \<and> drvdata (snd (si7006_get_humidity rpi_kernel 1000 1001 (sampled_dev bus_failing)))
        = sampled_private"
proof -
  have t: "temperature_valid (drvdata (sampled_dev bus_failing))
     \<and> time_after 1000 (temperature_updated (drvdata (sampled_dev bus_failing)) + HZ rpi_kernel)
     \<and> fst (si7006_get_master_temperature rpi_kernel (client (sampled_dev bus_failing))) = Inl (- 5)"
    by (simp add: example_defs bus_defs master_defs time_after_def word_sless_alt)
  have h: "humidity_valid (drvdata (sampled_dev bus_failing))
     \<and> time_after 1000 (humidity_updated (drvdata (sampled_dev bus_failing)) + HZ rpi_kernel)
     \<and> fst (si7006_get_master_humidity rpi_kernel (client (sampled_dev bus_failing))) = Inl (- 5)"
    by (simp add: example_defs bus_defs master_defs time_after_def word_sless_alt)
  have d: "drvdata (sampled_dev bus_failing) = sampled_private"
    by (simp add: sampled_dev_def)
  show ?thesis
    using t h d
      transport_failure_returns_zero [of "sampled_dev bus_failing" 1000 rpi_kernel "- 5" 1001]
    by simp
qed

text \<open>
  C1 as stated has the cached value returned. With 25000 cached, a stale clock and a
  failing bus the function returns 0.
\<close>

theorem transport_failure_cached_value_counterexample:
  "temperature_valid (drvdata (sampled_dev bus_failing))
   \<and> time_after 1000 (temperature_updated (drvdata (sampled_dev bus_failing)) + HZ rpi_kernel)
   \<and> fst (si7006_get_master_temperature rpi_kernel (client (sampled_dev bus_failing))) = Inl (- 5)
   \<and> temperature (drvdata (sampled_dev bus_failing)) = 25000
   \<and> fst (si7006_get_temperature rpi_kernel 1000 1001 (sampled_dev bus_failing)) = 0
   \<and> fst (si7006_get_temperature rpi_kernel 1000 1001 (sampled_dev bus_failing))
       \<noteq> temperature (drvdata (sampled_dev bus_failing))"
  by (simp add: example_defs bus_defs master_defs time_after_def word_sless_alt
      si7006_get_temperature_def)

subsection \<open>C9: a failed transaction before the first sample\<close>

text \<open>
  C9. For every state in which no valid sample has been taken, if the bus transaction
  fails, the function returns 0 and the hwmon read built on it reports success with the
  value 0 (no error result); the driver state is unchanged and the valid flag is still
  false. This holds for the temperature and for the humidity.
\<close>

theorem never_valid_failure_returns_zero:
  "(\<not> temperature_valid (drvdata dev)
      \<and> fst (si7006_get_master_temperature k (client dev)) = Inl e
    \<longrightarrow> fst (si7006_get_temperature k j j' dev) = 0
        \<and> drvdata (snd (si7006_get_temperature k j j' dev)) = drvdata dev
        \<and> \<not> temperature_valid (drvdata (snd (si7006_get_temperature k j j' dev)))
        \<and> fst (si7006_read k j j' dev hwmon_temp (hwmon_temp_input k) 0) = Inr 0)
   \<and> (\<not> humidity_valid (drvdata dev)
      \<and> fst (si7006_get_master_humidity k (client dev)) = Inl e
    \<longrightarrow> fst (si7006_get_humidity k j j' dev) = 0
        \<and> drvdata (snd (si7006_get_humidity k j j' dev)) = drvdata dev
        \<and> \<not> humidity_valid (drvdata (snd (si7006_get_humidity k j j' dev)))
        \<and> fst (si7006_read k j j' dev hwmon_humidity (hwmon_humidity_input k) 0) = Inr 0)"
  by (simp add: get_temperature_error get_humidity_error si7006_read_temperature_def
      si7006_read_humidity_def SI7006_NUM_CH_TEMP_def word_sless_alt)

theorem never_valid_failure_returns_zero_witness:
  "\<not> temperature_valid (drvdata \<lparr>drvdata = kzalloc_si7006_private, client = bus_failing\<rparr>)
   \<and> fst (si7006_get_master_temperature rpi_kernel bus_failing) = Inl (- 5)
   \<and> \<not> humidity_valid (drvdata \<lparr>drvdata = kzalloc_si7006_private, client = bus_failing\<rparr>)
   \<and> fst (si7006_get_master_humidity rpi_kernel bus_failing) = Inl (- 5)
   \<and> fst (si7006_get_temperature rpi_kernel 7 8
             \<lparr>drvdata = kzalloc_si7006_private, client = bus_failing\<rparr>) = 0
   \<and> drvdata (snd (si7006_get_temperature rpi_kernel 7 8
             \<lparr>drvdata = kzalloc_si7006_private, client = bus_failing\<rparr>))
        = kzalloc_si7006_private
   \<and> fst (si7006_read rpi_kernel 7 8 \<lparr>drvdata = kzalloc_si7006_private, client = bus_failing\<rparr>
             hwmon_humidity 1 0) = Inr 0"
proof -
  have t: "\<not> temperature_valid (drvdata \<lparr>drvdata = kzalloc_si7006_private, client = bus_failing\<rparr>)
     \<and> fst (si7006_get_master_temperature rpi_kernel
              (client \<lparr>drvdata = kzalloc_si7006_private, client = bus_failing\<rparr>)) = Inl (- 5)"
    by (simp add: kzalloc_si7006_private_def bus_defs master_defs)
  have h: "\<not> humidity_valid (drvdata \<lparr>drvdata = kzalloc_si7006_private, client = bus_failing\<rparr>)
     \<and> fst (si7006_get_master_humidity rpi_kernel
              (client \<lparr>drvdata = kzalloc_si7006_private, client = bus_failing\<rparr>)) = Inl (- 5)"
    by (simp add: kzalloc_si7006_private_def bus_defs master_defs)
  have a: "hwmon_humidity_input rpi_kernel = 1"
    by (simp add: rpi_kernel_def)
  show ?thesis
    using t h a
      never_valid_failure_returns_zero
        [where dev = "\<lparr>drvdata = kzalloc_si7006_private, client = bus_failing\<rparr>"
           and k = rpi_kernel and e = "- 5" and j = 7 and j' = 8]
    by simp
qed

subsection \<open>C4: when a transaction is issued\<close>

text \<open>
  C4, as the code has it. For every state and clock value, the function issues a bus
  transaction exactly when the valid flag is false or \<open>time_after(jiffies, last_updated + HZ)\<close>
  holds, that is when \<open>(long)(last_updated + HZ - jiffies) < 0\<close>; while at most \<open>2 ^ 31\<close>
  ticks have elapsed since the last update this is the case exactly when strictly more
  than \<open>HZ\<close> ticks have elapsed. Otherwise it returns the cached value without a
  transaction and without modifying the state. This holds for the temperature and for
  the humidity.
\<close>

theorem transaction_iff_stale:
  "transactions (client (snd (si7006_get_temperature k j j' dev)))
     = transactions (client dev)
       + (if \<not> temperature_valid (drvdata dev)
             \<or> time_after j (temperature_updated (drvdata dev) + HZ k) then 1 else 0)
   \<and> (temperature_valid (drvdata dev)
        \<and> \<not> time_after j (temperature_updated (drvdata dev) + HZ k)
      \<longrightarrow> si7006_get_temperature k j j' dev = (temperature (drvdata dev), dev))
   \<and> transactions (client (snd (si7006_get_humidity k j j' dev)))
     = transactions (client dev)
       + (if \<not> humidity_valid (drvdata dev)
             \<or> time_after j (humidity_updated (drvdata dev) + HZ k) then 1 else 0)
   \<and> (humidity_valid (drvdata dev)
        \<and> \<not> time_after j (humidity_updated (drvdata dev) + HZ k)
      \<longrightarrow> si7006_get_humidity k j j' dev = (humidity (drvdata dev), dev))
   \<and> (uint (HZ k) < 2 ^ 31 \<and> uint (j - u) \<le> 2 ^ 31
      \<longrightarrow> time_after j (u + HZ k) = (uint (HZ k) < uint (j - u)))"
proof -
  have "uint (HZ k) < 2 ^ 31 \<and> uint (j - u) \<le> 2 ^ 31
      \<longrightarrow> time_after j (u + HZ k) = (uint (HZ k) < uint (j - u))"
    using time_after_elapsed [of "HZ k" j u] by blast
  moreover have "transactions (client (snd (si7006_get_temperature k j j' dev)))
     = transactions (client dev)
       + (if \<not> temperature_valid (drvdata dev)
             \<or> time_after j (temperature_updated (drvdata dev) + HZ k) then 1 else 0)"
    by (simp only: get_temperature_transactions) auto
  moreover have "transactions (client (snd (si7006_get_humidity k j j' dev)))
     = transactions (client dev)
       + (if \<not> humidity_valid (drvdata dev)
             \<or> time_after j (humidity_updated (drvdata dev) + HZ k) then 1 else 0)"
    by (simp only: get_humidity_transactions) auto
  moreover have "temperature_valid (drvdata dev)
        \<and> \<not> time_after j (temperature_updated (drvdata dev) + HZ k)
      \<longrightarrow> si7006_get_temperature k j j' dev = (temperature (drvdata dev), dev)"
    by (simp add: get_temperature_cached)
  moreover have "humidity_valid (drvdata dev)
        \<and> \<not> time_after j (humidity_updated (drvdata dev) + HZ k)
      \<longrightarrow> si7006_get_humidity k j j' dev = (humidity (drvdata dev), dev)"
    by (simp add: get_humidity_cached)
  ultimately show ?thesis
    by blast
qed

theorem transaction_iff_stale_witness:
  "temperature_valid (drvdata (sampled_dev (bus_answering 0x68 0xAD)))
   \<and> \<not> time_after 100 (temperature_updated (drvdata (sampled_dev (bus_answering 0x68 0xAD)))
                          + HZ rpi_kernel)
   \<and> humidity_valid (drvdata (sampled_dev (bus_answering 0x68 0xAD)))
   \<and> \<not> time_after 100 (humidity_updated (drvdata (sampled_dev (bus_answering 0x68 0xAD)))
                          + HZ rpi_kernel)
   \<and> uint (HZ rpi_kernel) < 2 ^ 31 \<and> uint ((100 :: ulong) - 0) \<le> 2 ^ 31
   \<and> si7006_get_temperature rpi_kernel 100 100 (sampled_dev (bus_answering 0x68 0xAD))
       = (25000, sampled_dev (bus_answering 0x68 0xAD))
   \<and> si7006_get_humidity rpi_kernel 100 100 (sampled_dev (bus_answering 0x68 0xAD))
       = (50000, sampled_dev (bus_answering 0x68 0xAD))
   \<and> time_after 100 (0 + HZ rpi_kernel) = (uint (HZ rpi_kernel) < uint ((100 :: ulong) - 0))
   \<and> transactions (client (snd (si7006_get_temperature rpi_kernel 101 101
                                   (sampled_dev (bus_answering 0x68 0xAD)))))
       = transactions (client (sampled_dev (bus_answering 0x68 0xAD))) + 1"
proof -
  have c: "temperature_valid (drvdata (sampled_dev (bus_answering 0x68 0xAD)))
     \<and> \<not> time_after 100 (temperature_updated (drvdata (sampled_dev (bus_answering 0x68 0xAD)))
                          + HZ rpi_kernel)
     \<and> humidity_valid (drvdata (sampled_dev (bus_answering 0x68 0xAD)))
     \<and> \<not> time_after 100 (humidity_updated (drvdata (sampled_dev (bus_answering 0x68 0xAD)))
                          + HZ rpi_kernel)
     \<and> uint (HZ rpi_kernel) < 2 ^ 31 \<and> uint ((100 :: ulong) - 0) \<le> 2 ^ 31
     \<and> temperature (drvdata (sampled_dev (bus_answering 0x68 0xAD))) = 25000
     \<and> humidity (drvdata (sampled_dev (bus_answering 0x68 0xAD))) = 50000"
    by (simp add: example_defs time_after_def word_sless_alt)
  have s: "time_after 101 (temperature_updated (drvdata (sampled_dev (bus_answering 0x68 0xAD)))
                          + HZ rpi_kernel)"
    by (simp add: example_defs time_after_def word_sless_alt)
  show ?thesis
    using c s
      transaction_iff_stale [where dev = "sampled_dev (bus_answering 0x68 0xAD)"
        and k = rpi_kernel and j = 100 and j' = 100 and u = 0]
      transaction_iff_stale [where dev = "sampled_dev (bus_answering 0x68 0xAD)"
        and k = rpi_kernel and j = 101 and j' = 101 and u = 0]
    by simp
qed

text \<open>
  C4 as stated has a transaction as soon as \<open>now - last_updated\<close> reaches the refresh
  interval. With a valid sample taken at tick 0 and \<open>HZ = 100\<close>, at tick 100 the elapsed
  time equals the interval (and exceeds one tick), yet the cached value is returned and no
  transaction is issued.
\<close>

theorem transaction_at_interval_counterexample:
  "temperature_valid (drvdata (sampled_dev (bus_answering 0x68 0xAD)))
   \<and> HZ rpi_kernel \<le> 100 - temperature_updated (drvdata (sampled_dev (bus_answering 0x68 0xAD)))
   \<and> 1 \<le> 100 - temperature_updated (drvdata (sampled_dev (bus_answering 0x68 0xAD)))
   \<and> si7006_get_temperature rpi_kernel 100 100 (sampled_dev (bus_answering 0x68 0xAD))
       = (temperature (drvdata (sampled_dev (bus_answering 0x68 0xAD))),
          sampled_dev (bus_answering 0x68 0xAD))
   \<and> transactions (client (snd (si7006_get_temperature rpi_kernel 100 100
                                   (sampled_dev (bus_answering 0x68 0xAD)))))
       = transactions (client (sampled_dev (bus_answering 0x68 0xAD)))"
  by (simp add: example_defs time_after_def word_sless_alt si7006_get_temperature_def)

subsection \<open>C8: two calls close in time\<close>

lemma get_temperature_twice:
  assumes stale: "time_after j (temperature_updated (drvdata dev) + HZ k)
                  \<or> \<not> temperature_valid (drvdata dev)"
    and ok: "fst (si7006_get_master_temperature k (client dev)) = Inr t"
    and near: "\<not> time_after jn (j' + HZ k)"
  shows "fst (si7006_get_temperature k j j' dev) = t"
    and "si7006_get_temperature k jn jn' (snd (si7006_get_temperature k j j' dev))
           = (t, snd (si7006_get_temperature k j j' dev))"
    and "transactions (client (snd (si7006_get_temperature k j j' dev)))
           = transactions (client dev) + 1"
proof -
  show "fst (si7006_get_temperature k j j' dev) = t"
    by (simp only: get_temperature_sample [OF stale ok]) simp
  have "temperature_valid (drvdata (snd (si7006_get_temperature k j j' dev)))"
    and "temperature_updated (drvdata (snd (si7006_get_temperature k j j' dev))) = j'"
    and "temperature (drvdata (snd (si7006_get_temperature k j j' dev))) = t"
    by (simp_all only: get_temperature_sample [OF stale ok]) simp_all
  then show "si7006_get_temperature k jn jn' (snd (si7006_get_temperature k j j' dev))
           = (t, snd (si7006_get_temperature k j j' dev))"
    using near get_temperature_cached [of jn "snd (si7006_get_temperature k j j' dev)" k jn']
    by simp
  show "transactions (client (snd (si7006_get_temperature k j j' dev)))
           = transactions (client dev) + 1"
    using stale by (simp only: get_temperature_transactions) auto
qed

lemma get_humidity_twice:
  assumes stale: "time_after j (humidity_updated (drvdata dev) + HZ k)
                  \<or> \<not> humidity_valid (drvdata dev)"
    and ok: "fst (si7006_get_master_humidity k (client dev)) = Inr t"
    and near: "\<not> time_after jn (j' + HZ k)"
  shows "fst (si7006_get_humidity k j j' dev) = t"
    and "si7006_get_humidity k jn jn' (snd (si7006_get_humidity k j j' dev))
           = (t, snd (si7006_get_humidity k j j' dev))"
    and "transactions (client (snd (si7006_get_humidity k j j' dev)))
           = transactions (client dev) + 1"
proof -
  show "fst (si7006_get_humidity k j j' dev) = t"
    by (simp only: get_humidity_sample [OF stale ok]) simp
  have "humidity_valid (drvdata (snd (si7006_get_humidity k j j' dev)))"
    and "humidity_updated (drvdata (snd (si7006_get_humidity k j j' dev))) = j'"
    and "humidity (drvdata (snd (si7006_get_humidity k j j' dev))) = t"
    by (simp_all only: get_humidity_sample [OF stale ok]) simp_all
  then show "si7006_get_humidity k jn jn' (snd (si7006_get_humidity k j j' dev))
           = (t, snd (si7006_get_humidity k j j' dev))"
    using near get_humidity_cached [of jn "snd (si7006_get_humidity k j j' dev)" k jn']
    by simp
  show "transactions (client (snd (si7006_get_humidity k j j' dev)))
           = transactions (client dev) + 1"
    using stale by (simp only: get_humidity_transactions) auto
qed

text \<open>
  C8, as the code has it. For every state (with a valid sample or without): if the first
  call finds the cache stale and its bus transaction succeeds, and the clock of the second
  call is not after the time stored by the first call plus \<open>HZ\<close>, then both calls return
  the same value, the second call takes the cached path and leaves the state alone, and
  the two calls together issue exactly one transaction. If both calls find a valid cache
  that is not stale, both return the cached value and no transaction is issued. This holds
  for the temperature and for the humidity.
\<close>

theorem two_calls_one_transaction:
  "((time_after j (temperature_updated (drvdata dev) + HZ k) \<or> \<not> temperature_valid (drvdata dev))
      \<and> fst (si7006_get_master_temperature k (client dev)) = Inr t
      \<and> \<not> time_after jn (j' + HZ k)
    \<longrightarrow> fst (si7006_get_temperature k jn jn' (snd (si7006_get_temperature k j j' dev)))
          = fst (si7006_get_temperature k j j' dev)
        \<and> snd (si7006_get_temperature k jn jn' (snd (si7006_get_temperature k j j' dev)))
          = snd (si7006_get_temperature k j j' dev)
        \<and> transactions (client (snd (si7006_get_temperature k jn jn'
                                        (snd (si7006_get_temperature k j j' dev)))))
          = transactions (client dev) + 1)
   \<and> ((time_after j (humidity_updated (drvdata dev) + HZ k) \<or> \<not> humidity_valid (drvdata dev))
      \<and> fst (si7006_get_master_humidity k (client dev)) = Inr h
      \<and> \<not> time_after jn (j' + HZ k)
    \<longrightarrow> fst (si7006_get_humidity k jn jn' (snd (si7006_get_humidity k j j' dev)))
          = fst (si7006_get_humidity k j j' dev)
        \<and> snd (si7006_get_humidity k jn jn' (snd (si7006_get_humidity k j j' dev)))
          = snd (si7006_get_humidity k j j' dev)
        \<and> transactions (client (snd (si7006_get_humidity k jn jn'
                                        (snd (si7006_get_humidity k j j' dev)))))
          = transactions (client dev) + 1)
   \<and> (temperature_valid (drvdata dev)
      \<and> \<not> time_after j (temperature_updated (drvdata dev) + HZ k)
      \<and> \<not> time_after jn (temperature_updated (drvdata dev) + HZ k)
    \<longrightarrow> si7006_get_temperature k jn jn' (snd (si7006_get_temperature k j j' dev))
          = (temperature (drvdata dev), dev)
        \<and> si7006_get_temperature k j j' dev = (temperature (drvdata dev), dev))
   \<and> (humidity_valid (drvdata dev)
      \<and> \<not> time_after j (humidity_updated (drvdata dev) + HZ k)
      \<and> \<not> time_after jn (humidity_updated (drvdata dev) + HZ k)
    \<longrightarrow> si7006_get_humidity k jn jn' (snd (si7006_get_humidity k j j' dev))
          = (humidity (drvdata dev), dev)
        \<and> si7006_get_humidity k j j' dev = (humidity (drvdata dev), dev))"
proof -
  have "(time_after j (temperature_updated (drvdata dev) + HZ k) \<or> \<not> temperature_valid (drvdata dev))
      \<and> fst (si7006_get_master_temperature k (client dev)) = Inr t
      \<and> \<not> time_after jn (j' + HZ k)
    \<longrightarrow> fst (si7006_get_temperature k jn jn' (snd (si7006_get_temperature k j j' dev)))
          = fst (si7006_get_temperature k j j' dev)
        \<and> snd (si7006_get_temperature k jn jn' (snd (si7006_get_temperature k j j' dev)))
          = snd (si7006_get_temperature k j j' dev)
        \<and> transactions (client (snd (si7006_get_temperature k jn jn'
                                        (snd (si7006_get_temperature k j j' dev)))))
          = transactions (client dev) + 1"
  proof (intro impI, elim conjE)
    assume s: "time_after j (temperature_updated (drvdata dev) + HZ k)
               \<or> \<not> temperature_valid (drvdata dev)"
      and ok: "fst (si7006_get_master_temperature k (client dev)) = Inr t"
      and n: "\<not> time_after jn (j' + HZ k)"
    show "fst (si7006_get_temperature k jn jn' (snd (si7006_get_temperature k j j' dev)))
          = fst (si7006_get_temperature k j j' dev)
        \<and> snd (si7006_get_temperature k jn jn' (snd (si7006_get_temperature k j j' dev)))
          = snd (si7006_get_temperature k j j' dev)
        \<and> transactions (client (snd (si7006_get_temperature k jn jn'
                                        (snd (si7006_get_temperature k j j' dev)))))
          = transactions (client dev) + 1"
      using get_temperature_twice(1,3) [OF s ok n] get_temperature_twice(2) [OF s ok n, of jn']
      by simp
  qed
  moreover have "(time_after j (humidity_updated (drvdata dev) + HZ k) \<or> \<not> humidity_valid (drvdata dev))
      \<and> fst (si7006_get_master_humidity k (client dev)) = Inr h
      \<and> \<not> time_after jn (j' + HZ k)
    \<longrightarrow> fst (si7006_get_humidity k jn jn' (snd (si7006_get_humidity k j j' dev)))
          = fst (si7006_get_humidity k j j' dev)
        \<and> snd (si7006_get_humidity k jn jn' (snd (si7006_get_humidity k j j' dev)))
          = snd (si7006_get_humidity k j j' dev)
        \<and> transactions (client (snd (si7006_get_humidity k jn jn'
                                        (snd (si7006_get_humidity k j j' dev)))))
          = transactions (client dev) + 1"
  proof (intro impI, elim conjE)
    assume s: "time_after j (humidity_updated (drvdata dev) + HZ k)
               \<or> \<not> humidity_valid (drvdata dev)"
      and ok: "fst (si7006_get_master_humidity k (client dev)) = Inr h"
      and n: "\<not> time_after jn (j' + HZ k)"
    show "fst (si7006_get_humidity k jn jn' (snd (si7006_get_humidity k j j' dev)))
          = fst (si7006_get_humidity k j j' dev)
        \<and> snd (si7006_get_humidity k jn jn' (snd (si7006_get_humidity k j j' dev)))
          = snd (si7006_get_humidity k j j' dev)
        \<and> transactions (client (snd (si7006_get_humidity k jn jn'
                                        (snd (si7006_get_humidity k j j' dev)))))
          = transactions (client dev) + 1"
      using get_humidity_twice(1,3) [OF s ok n] get_humidity_twice(2) [OF s ok n, of jn']
      by simp
  qed
  moreover have "temperature_valid (drvdata dev)
      \<and> \<not> time_after j (temperature_updated (drvdata dev) + HZ k)
      \<and> \<not> time_after jn (temperature_updated (drvdata dev) + HZ k)
    \<longrightarrow> si7006_get_temperature k jn jn' (snd (si7006_get_temperature k j j' dev))
          = (temperature (drvdata dev), dev)
        \<and> si7006_get_temperature k j j' dev = (temperature (drvdata dev), dev)"
    by (simp add: get_temperature_cached)
  moreover have "humidity_valid (drvdata dev)
      \<and> \<not> time_after j (humidity_updated (drvdata dev) + HZ k)
      \<and> \<not> time_after jn (humidity_updated (drvdata dev) + HZ k)
    \<longrightarrow> si7006_get_humidity k jn jn' (snd (si7006_get_humidity k j j' dev))
          = (humidity (drvdata dev), dev)
        \<and> si7006_get_humidity k j j' dev = (humidity (drvdata dev), dev)"
    by (simp add: get_humidity_cached)
  ultimately show ?thesis by blast
qed

text \<open>Unfolding set for the two conversions on concrete bytes.\<close>

lemmas conversion_defs = si7006_temperature_of_code_def si7006_humidity_of_code_def
  si7006_code_def char_to_int_def div_longlong_def signed_divide_int_def

lemma bus_answering_samples:
  "si7006_get_master_temperature rpi_kernel (bus_answering 0x68 0xAD)
     = (Inr 25000, (bus_answering 0x68 0xAD)
          \<lparr>trace := [I2C_send [SI7006_MEAS_TEMP_MASTER_MODE], I2C_recv 2]\<rparr>)"
  "si7006_get_master_humidity rpi_kernel (bus_answering 0x68 0xAD)
     = (Inr 45111, (bus_answering 0x68 0xAD)
          \<lparr>trace := [I2C_send [SI7006_MEAS_REL_HUMIDITY_MASTER_MODE], I2C_recv 2]\<rparr>)"
  by (simp_all add: si7006_get_master_temperature_def si7006_get_master_humidity_def
      i2c_master_send_def i2c_master_recv_def bus_answering_def rpi_kernel_def conversion_defs)

theorem two_calls_one_transaction_witness:
  "(time_after 1000 (temperature_updated (drvdata (sampled_dev (bus_answering 0x68 0xAD)))
                      + HZ rpi_kernel)
      \<or> \<not> temperature_valid (drvdata (sampled_dev (bus_answering 0x68 0xAD))))
   \<and> fst (si7006_get_master_temperature rpi_kernel
             (client (sampled_dev (bus_answering 0x68 0xAD)))) = Inr 25000
   \<and> (time_after 1000 (humidity_updated (drvdata (sampled_dev (bus_answering 0x68 0xAD)))
                      + HZ rpi_kernel)
      \<or> \<not> humidity_valid (drvdata (sampled_dev (bus_answering 0x68 0xAD))))
   \<and> fst (si7006_get_master_humidity rpi_kernel
             (client (sampled_dev (bus_answering 0x68 0xAD)))) = Inr 45111
   \<and> \<not> time_after 1050 (1001 + HZ rpi_kernel)
   \<and> temperature_valid (drvdata (sampled_dev (bus_answering 0x68 0xAD)))
   \<and> \<not> time_after 10 (temperature_updated (drvdata (sampled_dev (bus_answering 0x68 0xAD)))
                        + HZ rpi_kernel)
   \<and> \<not> time_after 20 (temperature_updated (drvdata (sampled_dev (bus_answering 0x68 0xAD)))
                        + HZ rpi_kernel)
   \<and> humidity_valid (drvdata (sampled_dev (bus_answering 0x68 0xAD)))
   \<and> \<not> time_after 10 (humidity_updated (drvdata (sampled_dev (bus_answering 0x68 0xAD)))
                        + HZ rpi_kernel)
   \<and> \<not> time_after 20 (humidity_updated (drvdata (sampled_dev (bus_answering 0x68 0xAD)))
                        + HZ rpi_kernel)
   \<and> fst (si7006_get_temperature rpi_kernel 1050 1050
            (snd (si7006_get_temperature rpi_kernel 1000 1001
                    (sampled_dev (bus_answering 0x68 0xAD)))))
       = fst (si7006_get_temperature rpi_kernel 1000 1001 (sampled_dev (bus_answering 0x68 0xAD)))
   \<and> transactions (client (snd (si7006_get_temperature rpi_kernel 1050 1050
            (snd (si7006_get_temperature rpi_kernel 1000 1001
                    (sampled_dev (bus_answering 0x68 0xAD)))))))
       = transactions (client (sampled_dev (bus_answering 0x68 0xAD))) + 1
   \<and> transactions (client (snd (si7006_get_humidity rpi_kernel 1050 1050
            (snd (si7006_get_humidity rpi_kernel 1000 1001
                    (sampled_dev (bus_answering 0x68 0xAD)))))))
       = transactions (client (sampled_dev (bus_answering 0x68 0xAD))) + 1
   \<and> si7006_get_temperature rpi_kernel 20 20
         (snd (si7006_get_temperature rpi_kernel 10 10 (sampled_dev (bus_answering 0x68 0xAD))))
       = (25000, sampled_dev (bus_answering 0x68 0xAD))
   \<and> si7006_get_humidity rpi_kernel 20 20
         (snd (si7006_get_humidity rpi_kernel 10 10 (sampled_dev (bus_answering 0x68 0xAD))))
       = (50000, sampled_dev (bus_answering 0x68 0xAD))"
proof -
  have a: "(time_after 1000 (temperature_updated (drvdata (sampled_dev (bus_answering 0x68 0xAD)))
                      + HZ rpi_kernel)
      \<or> \<not> temperature_valid (drvdata (sampled_dev (bus_answering 0x68 0xAD))))
   \<and> (time_after 1000 (humidity_updated (drvdata (sampled_dev (bus_answering 0x68 0xAD)))
                      + HZ rpi_kernel)
      \<or> \<not> humidity_valid (drvdata (sampled_dev (bus_answering 0x68 0xAD))))
   \<and> \<not> time_after 1050 (1001 + HZ rpi_kernel)
   \<and> temperature_valid (drvdata (sampled_dev (bus_answering 0x68 0xAD)))
   \<and> \<not> time_after 10 (temperature_updated (drvdata (sampled_dev (bus_answering 0x68 0xAD)))
                        + HZ rpi_kernel)
   \<and> \<not> time_after 20 (temperature_updated (drvdata (sampled_dev (bus_answering 0x68 0xAD)))
                        + HZ rpi_kernel)
   \<and> humidity_valid (drvdata (sampled_dev (bus_answering 0x68 0xAD)))
   \<and> \<not> time_after 10 (humidity_updated (drvdata (sampled_dev (bus_answering 0x68 0xAD)))
                        + HZ rpi_kernel)
   \<and> \<not> time_after 20 (humidity_updated (drvdata (sampled_dev (bus_answering 0x68 0xAD)))
                        + HZ rpi_kernel)
   \<and> temperature (drvdata (sampled_dev (bus_answering 0x68 0xAD))) = 25000
   \<and> humidity (drvdata (sampled_dev (bus_answering 0x68 0xAD))) = 50000"
    by (simp add: example_defs time_after_def word_sless_alt)
  have b: "fst (si7006_get_master_temperature rpi_kernel
             (client (sampled_dev (bus_answering 0x68 0xAD)))) = Inr 25000
   \<and> fst (si7006_get_master_humidity rpi_kernel
             (client (sampled_dev (bus_answering 0x68 0xAD)))) = Inr 45111"
    by (simp add: sampled_dev_def bus_answering_samples)
  show ?thesis
    using a b
      two_calls_one_transaction [where dev = "sampled_dev (bus_answering 0x68 0xAD)"
        and k = rpi_kernel and j = 1000 and j' = 1001 and jn = 1050 and jn' = 1050
        and t = 25000 and h = 45111]
      two_calls_one_transaction [where dev = "sampled_dev (bus_answering 0x68 0xAD)"
        and k = rpi_kernel and j = 10 and j' = 10 and jn = 20 and jn' = 20
        and t = 25000 and h = 45111]
    by (simp only:) blast
qed

text \<open>
  C8 as stated has exactly one transaction for any two calls close in time on a valid
  state. With a valid sample taken at tick 0 and \<open>HZ = 100\<close>: two calls at ticks 10 and
  20 issue no transaction at all; and two calls at the same tick 1000, on a bus whose
  first operation fails, return 0 and then 25000 and issue two transactions.
\<close>

theorem two_calls_counterexample:
  "temperature_valid (drvdata (sampled_dev (bus_answering 0x68 0xAD)))
   \<and> transactions (client (snd (si7006_get_temperature rpi_kernel 20 20
         (snd (si7006_get_temperature rpi_kernel 10 10 (sampled_dev (bus_answering 0x68 0xAD)))))))
       = transactions (client (sampled_dev (bus_answering 0x68 0xAD)))
   \<and> temperature_valid (drvdata (sampled_dev (bus_failing_once 0x68 0xAD)))
   \<and> fst (si7006_get_temperature rpi_kernel 1000 1000 (sampled_dev (bus_failing_once 0x68 0xAD)))
       = 0
   \<and> fst (si7006_get_temperature rpi_kernel 1000 1000
         (snd (si7006_get_temperature rpi_kernel 1000 1000
                 (sampled_dev (bus_failing_once 0x68 0xAD)))))
       = 25000
   \<and> transactions (client (snd (si7006_get_temperature rpi_kernel 1000 1000
         (snd (si7006_get_temperature rpi_kernel 1000 1000
                 (sampled_dev (bus_failing_once 0x68 0xAD)))))))
       = transactions (client (sampled_dev (bus_failing_once 0x68 0xAD))) + 2"
  by (simp add: example_defs bus_defs master_defs conversion_defs time_after_def word_sless_alt
      si7006_get_temperature_def)

subsection \<open>C5: the dispatch of a read\<close>

lemma channel_less: "(channel <s SI7006_NUM_CH_TEMP) = (sint channel < 1)"
  by (simp add: SI7006_NUM_CH_TEMP_def word_sless_alt)

lemma read_temperature_supported:
  "(\<exists>v. fst (si7006_read_temperature k j j' dev attr channel) = Inr v)
     = ((attr = hwmon_temp_input k \<or> attr = hwmon_temp_max k \<or> attr = hwmon_temp_min k)
        \<and> sint channel < 1)"
  by (auto simp: si7006_read_temperature_def channel_less split: prod.splits)

lemma read_humidity_supported:
  "(\<exists>v. fst (si7006_read_humidity k j j' dev attr channel) = Inr v)
     = ((attr = hwmon_humidity_input k \<or> attr = hwmon_humidity_max k
         \<or> attr = hwmon_humidity_min k)
        \<and> sint channel < 1)"
  by (auto simp: si7006_read_humidity_def channel_less split: prod.splits)

lemma read_supported:
  "(\<exists>v. fst (si7006_read k j j' dev type attr channel) = Inr v)
     = ((type = hwmon_temp
           \<and> (attr = hwmon_temp_input k \<or> attr = hwmon_temp_max k \<or> attr = hwmon_temp_min k)
         \<or> type = hwmon_humidity
           \<and> (attr = hwmon_humidity_input k \<or> attr = hwmon_humidity_max k
               \<or> attr = hwmon_humidity_min k))
        \<and> sint channel < 1)"
  by (cases type) (simp_all add: read_temperature_supported read_humidity_supported)

lemma read_unsupported:
  "(\<nexists>v. fst (si7006_read k j j' dev type attr channel) = Inr v)
   \<Longrightarrow> si7006_read k j j' dev type attr channel = (Inl EOPNOTSUPP, dev)"
  by (cases type)
     (auto simp: si7006_read_temperature_def si7006_read_humidity_def split: prod.splits if_splits)

lemma read_dispatch:
  assumes "case_labels_distinct k" "sint channel < 1"
  shows "si7006_read k j j' dev hwmon_temp (hwmon_temp_input k) channel
           = (Inr (fst (si7006_get_temperature k j j' dev)),
              snd (si7006_get_temperature k j j' dev))"
    and "si7006_read k j j' dev hwmon_temp (hwmon_temp_max k) channel
           = (Inr (si7006_get_temperature_max dev), dev)"
    and "si7006_read k j j' dev hwmon_temp (hwmon_temp_min k) channel
           = (Inr (si7006_get_temperature_min dev), dev)"
    and "si7006_read k j j' dev hwmon_humidity (hwmon_humidity_input k) channel
           = (Inr (fst (si7006_get_humidity k j j' dev)),
              snd (si7006_get_humidity k j j' dev))"
    and "si7006_read k j j' dev hwmon_humidity (hwmon_humidity_max k) channel
           = (Inr (si7006_get_humidity_max dev), dev)"
    and "si7006_read k j j' dev hwmon_humidity (hwmon_humidity_min k) channel
           = (Inr (si7006_get_humidity_min dev), dev)"
  using assms
  by (auto simp: case_labels_distinct_def si7006_read_temperature_def si7006_read_humidity_def
      channel_less split: prod.splits)

text \<open>
  C5. For every query (sensor type, attribute, channel), the read returns a value exactly
  when the type is temperature or humidity, the attribute is the input, maximum or minimum
  attribute of that type, and the channel is below 1; every other query returns
  \<open>-EOPNOTSUPP\<close> and leaves the device alone. A supported query is dispatched by attribute:
  input to the cached reading, maximum and minimum to the stored extremum, which involve
  no bus transaction.
\<close>

theorem si7006_read_dispatch:
  "((\<exists>v. fst (si7006_read k j j' dev type attr channel) = Inr v)
      = ((type = hwmon_temp
            \<and> (attr = hwmon_temp_input k \<or> attr = hwmon_temp_max k \<or> attr = hwmon_temp_min k)
          \<or> type = hwmon_humidity
            \<and> (attr = hwmon_humidity_input k \<or> attr = hwmon_humidity_max k
                \<or> attr = hwmon_humidity_min k))
         \<and> sint channel < 1))
   \<and> ((\<nexists>v. fst (si7006_read k j j' dev type attr channel) = Inr v)
        \<longrightarrow> si7006_read k j j' dev type attr channel = (Inl EOPNOTSUPP, dev))
   \<and> (case_labels_distinct k \<and> sint channel < 1 \<longrightarrow>
        si7006_read k j j' dev hwmon_temp (hwmon_temp_input k) channel
          = (Inr (fst (si7006_get_temperature k j j' dev)),
             snd (si7006_get_temperature k j j' dev))
        \<and> si7006_read k j j' dev hwmon_temp (hwmon_temp_max k) channel
          = (Inr (si7006_get_temperature_max dev), dev)
        \<and> si7006_read k j j' dev hwmon_temp (hwmon_temp_min k) channel
          = (Inr (si7006_get_temperature_min dev), dev)
        \<and> si7006_read k j j' dev hwmon_humidity (hwmon_humidity_input k) channel
          = (Inr (fst (si7006_get_humidity k j j' dev)),
             snd (si7006_get_humidity k j j' dev))
        \<and> si7006_read k j j' dev hwmon_humidity (hwmon_humidity_max k) channel
          = (Inr (si7006_get_humidity_max dev), dev)
        \<and> si7006_read k j j' dev hwmon_humidity (hwmon_humidity_min k) channel
          = (Inr (si7006_get_humidity_min dev), dev))"
  using read_supported [of k j j' dev type attr channel]
    read_unsupported [of k j j' dev type attr channel]
    read_dispatch [of k channel j j' dev]
  by blast

theorem si7006_read_dispatch_witness:
  "case_labels_distinct rpi_kernel \<and> sint (0 :: c_int) < 1
   \<and> (\<nexists>v. fst (si7006_read rpi_kernel 10 10 (sampled_dev bus_failing) hwmon_temp 1 1) = Inr v)
   \<and> si7006_read rpi_kernel 10 10 (sampled_dev bus_failing) hwmon_temp 1 1
       = (Inl EOPNOTSUPP, sampled_dev bus_failing)
   \<and> si7006_read rpi_kernel 10 10 (sampled_dev bus_failing) hwmon_temp 1 0
       = (Inr (fst (si7006_get_temperature rpi_kernel 10 10 (sampled_dev bus_failing))),
          snd (si7006_get_temperature rpi_kernel 10 10 (sampled_dev bus_failing)))
   \<and> si7006_read rpi_kernel 10 10 (sampled_dev bus_failing) hwmon_humidity 5 0
       = (Inr 52000, sampled_dev bus_failing)"
proof -
  have d: "case_labels_distinct rpi_kernel \<and> sint (0 :: c_int) < 1"
    by (simp add: case_labels_distinct_def rpi_kernel_def)
  have a: "hwmon_temp_input rpi_kernel = 1" "hwmon_humidity_max rpi_kernel = 5"
    by (simp_all add: rpi_kernel_def)
  have m: "si7006_get_humidity_max (sampled_dev bus_failing) = 52000"
    by (simp add: si7006_get_humidity_max_def example_defs)
  have n: "\<nexists>v. fst (si7006_read rpi_kernel 10 10 (sampled_dev bus_failing) hwmon_temp 1 1) = Inr v"
    by (simp add: si7006_read_temperature_def rpi_kernel_def channel_less)
  show ?thesis
    using d a m n
      si7006_read_dispatch [where k = rpi_kernel and j = 10 and j' = 10
        and dev = "sampled_dev bus_failing" and type = hwmon_temp and attr = 1 and channel = 1]
      si7006_read_dispatch [where k = rpi_kernel and j = 10 and j' = 10
        and dev = "sampled_dev bus_failing" and type = hwmon_temp and attr = 1 and channel = 0]
    by (simp only:) blast
qed

subsection \<open>The state along sequences of reads\<close>

lemma probe_drvdata:
  "si7006_i2c_probe k alloc_ok hwmon_err cl = Inr dev \<Longrightarrow> drvdata dev = kzalloc_si7006_private"
  by (auto simp: si7006_i2c_probe_def Let_def split: if_splits prod.splits option.splits)

lemma snd_read_cases:
  "snd (si7006_read k j j' dev type attr channel) = dev
   \<or> snd (si7006_read k j j' dev type attr channel) = snd (si7006_get_temperature k j j' dev)
   \<or> snd (si7006_read k j j' dev type attr channel) = snd (si7006_get_humidity k j j' dev)"
  by (cases type)
     (auto simp: si7006_read_temperature_def si7006_read_humidity_def split: prod.splits)

lemma extrema_ok_serve:
  "extrema_ok (drvdata dev) \<Longrightarrow> extrema_ok (drvdata (serve k dev r))"
proof (cases r)
  case (Request type attr channel j j')
  assume "extrema_ok (drvdata dev)"
  then show ?thesis
    using snd_read_cases [of k j j' dev type attr channel]
      extrema_ok_get_temperature [of dev k j j'] extrema_ok_get_humidity [of dev k j j']
    by (auto simp: Request)
qed

lemma extrema_ok_serve_all:
  "extrema_ok (drvdata dev) \<Longrightarrow> extrema_ok (drvdata (serve_all k dev rs))"
  unfolding serve_all_def
  by (induction rs arbitrary: dev) (simp_all add: extrema_ok_serve)

lemma valid_serve:
  "(temperature_valid (drvdata dev) \<longrightarrow> temperature_valid (drvdata (serve k dev r)))
   \<and> (humidity_valid (drvdata dev) \<longrightarrow> humidity_valid (drvdata (serve k dev r)))"
proof (cases r)
  case (Request type attr channel j j')
  show ?thesis
    using snd_read_cases [of k j j' dev type attr channel]
      valid_get_temperature [of dev k j j'] valid_get_humidity [of dev k j j']
    by (auto simp: Request)
qed

lemma valid_serve_all:
  "(temperature_valid (drvdata dev) \<longrightarrow> temperature_valid (drvdata (serve_all k dev rs)))
   \<and> (humidity_valid (drvdata dev) \<longrightarrow> humidity_valid (drvdata (serve_all k dev rs)))"
  unfolding serve_all_def
proof (induction rs arbitrary: dev)
  case Nil
  show ?case by simp
next
  case (Cons r rs)
  show ?case
    using valid_serve [of dev k r] Cons.IH [of "serve k dev r"] by simp
qed

lemma probe_board:
  "si7006_i2c_probe rpi_kernel True None bus_board = Inr probed_board"
  by (simp add: si7006_i2c_probe_def si7006_get_device_id_def i2c_master_send_def
      i2c_master_recv_def bus_board_def rpi_kernel_def char_to_int_def ID_SI7006_def
      probed_board_def)

lemma serve_board:
  "drvdata (serve_all rpi_kernel probed_board board_requests)
     = \<lparr>temperature_valid = True, max_temperature = 25000, temperature = 25000,
        min_temperature = 25000, temperature_updated = 1001,
        humidity_valid = True, max_humidity = 45111, humidity = 45111, min_humidity = 45111,
        humidity_updated = 1003\<rparr>"
  by (simp add: serve_all_def board_requests_def probed_board_def
      si7006_read_temperature_def si7006_read_humidity_def SI7006_NUM_CH_TEMP_def
      si7006_get_temperature_def si7006_get_humidity_def
      si7006_get_temperature_max_def
      kzalloc_si7006_private_def time_after_def word_sless_alt
      master_defs conversion_defs i2c_master_send_def i2c_master_recv_def bus_board_def
      rpi_kernel_def)

subsection \<open>C6: the extrema enclose the value\<close>

text \<open>
  C6. In every state that the driver reaches from a successful probe through any sequence
  of hwmon reads, for either quantity: whenever the valid flag is set, minimum \<open>\<le>\<close>
  value \<open>\<le>\<close> maximum (as signed numbers). The same holds in the state left by one more
  call of the cached reading of either quantity, whichever path that call takes (fresh
  sample, cached value, or failed transaction). Moreover every single call, of a cached
  reading or of the hwmon read, preserves the property from any state that has it.
\<close>

theorem extrema_invariant:
  "(si7006_i2c_probe k alloc_ok hwmon_err cl = Inr dev0 \<longrightarrow>
      extrema_ok (drvdata (serve_all k dev0 rs))
      \<and> extrema_ok (drvdata (snd (si7006_get_temperature k j j' (serve_all k dev0 rs))))
      \<and> extrema_ok (drvdata (snd (si7006_get_humidity k j j' (serve_all k dev0 rs)))))
   \<and> (extrema_ok (drvdata dev) \<longrightarrow>
      extrema_ok (drvdata (snd (si7006_get_temperature k j j' dev)))
      \<and> extrema_ok (drvdata (snd (si7006_get_humidity k j j' dev)))
      \<and> extrema_ok (drvdata (snd (si7006_read k j j' dev type attr channel))))"
proof (intro conjI impI)
  assume "si7006_i2c_probe k alloc_ok hwmon_err cl = Inr dev0"
  then have "drvdata dev0 = kzalloc_si7006_private"
    by (rule probe_drvdata)
  then have "extrema_ok (drvdata dev0)"
    by (simp add: extrema_ok_def kzalloc_si7006_private_def)
  then show r: "extrema_ok (drvdata (serve_all k dev0 rs))"
    by (rule extrema_ok_serve_all)
  show "extrema_ok (drvdata (snd (si7006_get_temperature k j j' (serve_all k dev0 rs))))"
    using r by (rule extrema_ok_get_temperature)
  show "extrema_ok (drvdata (snd (si7006_get_humidity k j j' (serve_all k dev0 rs))))"
    using r by (rule extrema_ok_get_humidity)
next
  assume a: "extrema_ok (drvdata dev)"
  show "extrema_ok (drvdata (snd (si7006_get_temperature k j j' dev)))"
    using a by (rule extrema_ok_get_temperature)
  show "extrema_ok (drvdata (snd (si7006_get_humidity k j j' dev)))"
    using a by (rule extrema_ok_get_humidity)
  show "extrema_ok (drvdata (snd (si7006_read k j j' dev type attr channel)))"
    using extrema_ok_serve [OF a, of k "Request type attr channel j j'"] by simp
qed

theorem extrema_invariant_witness:
  "si7006_i2c_probe rpi_kernel True None bus_board = Inr probed_board
   \<and> temperature_valid (drvdata (serve_all rpi_kernel probed_board board_requests))
   \<and> humidity_valid (drvdata (serve_all rpi_kernel probed_board board_requests))
   \<and> min_temperature (drvdata (serve_all rpi_kernel probed_board board_requests))
       \<le>s temperature (drvdata (serve_all rpi_kernel probed_board board_requests))
   \<and> temperature (drvdata (serve_all rpi_kernel probed_board board_requests))
       \<le>s max_temperature (drvdata (serve_all rpi_kernel probed_board board_requests))
   \<and> min_humidity (drvdata (serve_all rpi_kernel probed_board board_requests))
       \<le>s humidity (drvdata (serve_all rpi_kernel probed_board board_requests))
   \<and> humidity (drvdata (serve_all rpi_kernel probed_board board_requests))
       \<le>s max_humidity (drvdata (serve_all rpi_kernel probed_board board_requests))
   \<and> temperature_valid (drvdata (snd (si7006_get_temperature rpi_kernel 2000 2001
        (serve_all rpi_kernel probed_board board_requests))))
   \<and> extrema_ok (drvdata (snd (si7006_get_temperature rpi_kernel 2000 2001
        (serve_all rpi_kernel probed_board board_requests))))
   \<and> humidity_valid (drvdata (snd (si7006_get_humidity rpi_kernel 2000 2001
        (serve_all rpi_kernel probed_board board_requests))))
   \<and> extrema_ok (drvdata (snd (si7006_get_humidity rpi_kernel 2000 2001
        (serve_all rpi_kernel probed_board board_requests))))
   \<and> temperature_valid (drvdata (sampled_dev (bus_answering 0x70 0x00)))
   \<and> humidity_valid (drvdata (sampled_dev (bus_answering 0x70 0x00)))
   \<and> extrema_ok (drvdata (sampled_dev (bus_answering 0x70 0x00)))
   \<and> extrema_ok (drvdata (snd (si7006_get_temperature rpi_kernel 2000 2001
        (sampled_dev (bus_answering 0x70 0x00)))))
   \<and> extrema_ok (drvdata (snd (si7006_get_humidity rpi_kernel 2000 2001
        (sampled_dev (bus_answering 0x70 0x00)))))"
proof -
  have v: "temperature_valid (drvdata (serve_all rpi_kernel probed_board board_requests))
     \<and> humidity_valid (drvdata (serve_all rpi_kernel probed_board board_requests))"
    by (simp add: serve_board)
  have w: "temperature_valid (drvdata (snd (si7006_get_temperature rpi_kernel 2000 2001
        (serve_all rpi_kernel probed_board board_requests))))
     \<and> humidity_valid (drvdata (snd (si7006_get_humidity rpi_kernel 2000 2001
        (serve_all rpi_kernel probed_board board_requests))))"
    using v valid_get_temperature valid_get_humidity by blast
  have s: "temperature_valid (drvdata (sampled_dev (bus_answering 0x70 0x00)))
     \<and> humidity_valid (drvdata (sampled_dev (bus_answering 0x70 0x00)))
     \<and> extrema_ok (drvdata (sampled_dev (bus_answering 0x70 0x00)))"
    by (simp add: example_defs extrema_ok_def word_sle_eq)
  show ?thesis
    using v w s probe_board
      extrema_invariant [where k = rpi_kernel and alloc_ok = True and hwmon_err = None
        and cl = bus_board and ?dev0.0 = probed_board and rs = board_requests
        and j = 2000 and j' = 2001 and dev = "sampled_dev (bus_answering 0x70 0x00)"]
    by (simp add: extrema_ok_def)
qed

subsection \<open>C7: the valid flag\<close>

text \<open>
  C7. The state left by a successful probe has the valid flag of both quantities false.
  For every state in which the valid flag of a quantity is false, a call whose bus
  transaction succeeds returns the sample, stores it as value, minimum and maximum, and
  sets the flag. Once the flag of a quantity is set it stays set: no cached reading of
  either quantity and no sequence of hwmon reads clears it, so it goes from false to true
  exactly once.
\<close>

theorem valid_set_by_first_sample:
  "(si7006_i2c_probe k alloc_ok hwmon_err cl = Inr dev0
      \<longrightarrow> \<not> temperature_valid (drvdata dev0) \<and> \<not> humidity_valid (drvdata dev0))
   \<and> (\<not> temperature_valid (drvdata dev)
        \<and> fst (si7006_get_master_temperature k (client dev)) = Inr t
      \<longrightarrow> fst (si7006_get_temperature k j j' dev) = t
        \<and> temperature_valid (drvdata (snd (si7006_get_temperature k j j' dev)))
        \<and> temperature (drvdata (snd (si7006_get_temperature k j j' dev))) = t
        \<and> min_temperature (drvdata (snd (si7006_get_temperature k j j' dev))) = t
        \<and> max_temperature (drvdata (snd (si7006_get_temperature k j j' dev))) = t)
   \<and> (\<not> humidity_valid (drvdata dev)
        \<and> fst (si7006_get_master_humidity k (client dev)) = Inr h
      \<longrightarrow> fst (si7006_get_humidity k j j' dev) = h
        \<and> humidity_valid (drvdata (snd (si7006_get_humidity k j j' dev)))
        \<and> humidity (drvdata (snd (si7006_get_humidity k j j' dev))) = h
        \<and> min_humidity (drvdata (snd (si7006_get_humidity k j j' dev))) = h
        \<and> max_humidity (drvdata (snd (si7006_get_humidity k j j' dev))) = h)
   \<and> (temperature_valid (drvdata dev)
      \<longrightarrow> temperature_valid (drvdata (snd (si7006_get_temperature k j j' dev)))
        \<and> temperature_valid (drvdata (snd (si7006_get_humidity k j j' dev)))
        \<and> temperature_valid (drvdata (serve_all k dev rs)))
   \<and> (humidity_valid (drvdata dev)
      \<longrightarrow> humidity_valid (drvdata (snd (si7006_get_temperature k j j' dev)))
        \<and> humidity_valid (drvdata (snd (si7006_get_humidity k j j' dev)))
        \<and> humidity_valid (drvdata (serve_all k dev rs)))"
proof -
  have "si7006_i2c_probe k alloc_ok hwmon_err cl = Inr dev0
      \<longrightarrow> \<not> temperature_valid (drvdata dev0) \<and> \<not> humidity_valid (drvdata dev0)"
    using probe_drvdata [of k alloc_ok hwmon_err cl dev0]
    by (auto simp: kzalloc_si7006_private_def)
  moreover have "\<not> temperature_valid (drvdata dev)
        \<and> fst (si7006_get_master_temperature k (client dev)) = Inr t
      \<longrightarrow> fst (si7006_get_temperature k j j' dev) = t
        \<and> temperature_valid (drvdata (snd (si7006_get_temperature k j j' dev)))
        \<and> temperature (drvdata (snd (si7006_get_temperature k j j' dev))) = t
        \<and> min_temperature (drvdata (snd (si7006_get_temperature k j j' dev))) = t
        \<and> max_temperature (drvdata (snd (si7006_get_temperature k j j' dev))) = t"
    by (simp add: get_temperature_sample)
  moreover have "\<not> humidity_valid (drvdata dev)
        \<and> fst (si7006_get_master_humidity k (client dev)) = Inr h
      \<longrightarrow> fst (si7006_get_humidity k j j' dev) = h
        \<and> humidity_valid (drvdata (snd (si7006_get_humidity k j j' dev)))
        \<and> humidity (drvdata (snd (si7006_get_humidity k j j' dev))) = h
        \<and> min_humidity (drvdata (snd (si7006_get_humidity k j j' dev))) = h
        \<and> max_humidity (drvdata (snd (si7006_get_humidity k j j' dev))) = h"
    by (simp add: get_humidity_sample)
  moreover have "temperature_valid (drvdata dev)
      \<longrightarrow> temperature_valid (drvdata (snd (si7006_get_temperature k j j' dev)))
        \<and> temperature_valid (drvdata (snd (si7006_get_humidity k j j' dev)))
        \<and> temperature_valid (drvdata (serve_all k dev rs))"
    using valid_get_temperature [of dev k j j'] valid_get_humidity [of dev k j j']
      valid_serve_all [of dev k rs]
    by simp
  moreover have "humidity_valid (drvdata dev)
      \<longrightarrow> humidity_valid (drvdata (snd (si7006_get_temperature k j j' dev)))
        \<and> humidity_valid (drvdata (snd (si7006_get_humidity k j j' dev)))
        \<and> humidity_valid (drvdata (serve_all k dev rs))"
    using valid_get_temperature [of dev k j j'] valid_get_humidity [of dev k j j']
      valid_serve_all [of dev k rs]
    by simp
  ultimately show ?thesis by blast
qed

theorem valid_set_by_first_sample_witness:
  "si7006_i2c_probe rpi_kernel True None bus_board = Inr probed_board
   \<and> \<not> temperature_valid (drvdata probed_board)
   \<and> fst (si7006_get_master_temperature rpi_kernel (client probed_board)) = Inr 25000
   \<and> \<not> humidity_valid (drvdata probed_board)
   \<and> fst (si7006_get_master_humidity rpi_kernel (client probed_board)) = Inr 45111
   \<and> temperature_valid (drvdata (sampled_dev bus_failing))
   \<and> humidity_valid (drvdata (sampled_dev bus_failing))
   \<and> fst (si7006_get_temperature rpi_kernel 1000 1001 probed_board) = 25000
   \<and> temperature_valid (drvdata (snd (si7006_get_temperature rpi_kernel 1000 1001 probed_board)))
   \<and> min_temperature (drvdata (snd (si7006_get_temperature rpi_kernel 1000 1001 probed_board)))
       = 25000
   \<and> max_temperature (drvdata (snd (si7006_get_temperature rpi_kernel 1000 1001 probed_board)))
       = 25000
   \<and> humidity_valid (drvdata (snd (si7006_get_humidity rpi_kernel 1000 1001 probed_board)))
   \<and> min_humidity (drvdata (snd (si7006_get_humidity rpi_kernel 1000 1001 probed_board)))
       = 45111
   \<and> temperature_valid (drvdata (serve_all rpi_kernel (sampled_dev bus_failing) board_requests))
   \<and> humidity_valid (drvdata (serve_all rpi_kernel (sampled_dev bus_failing) board_requests))"
proof -
  have p: "\<not> temperature_valid (drvdata probed_board)
     \<and> fst (si7006_get_master_temperature rpi_kernel (client probed_board)) = Inr 25000
     \<and> \<not> humidity_valid (drvdata probed_board)
     \<and> fst (si7006_get_master_humidity rpi_kernel (client probed_board)) = Inr 45111"
    by (simp add: probed_board_def kzalloc_si7006_private_def master_defs conversion_defs
        i2c_master_send_def i2c_master_recv_def bus_board_def rpi_kernel_def)
  have s: "temperature_valid (drvdata (sampled_dev bus_failing))
     \<and> humidity_valid (drvdata (sampled_dev bus_failing))"
    by (simp add: example_defs)
  show ?thesis
    using p s probe_board
      valid_set_by_first_sample [where k = rpi_kernel and alloc_ok = True and hwmon_err = None
        and cl = bus_board and ?dev0.0 = probed_board and dev = probed_board
        and t = 25000 and h = 45111 and j = 1000 and j' = 1001 and rs = board_requests]
      valid_set_by_first_sample [where k = rpi_kernel and alloc_ok = True and hwmon_err = None
        and cl = bus_board and ?dev0.0 = probed_board and dev = "sampled_dev bus_failing"
        and t = 25000 and h = 45111 and j = 1000 and j' = 1001 and rs = board_requests]
    by (simp only:) blast
qed

end
